theory Spec2Isabelle
  imports Main
begin

section \<open>The platform the script runs on\<close>

text \<open>
  \<^verbatim>\<open>generate_pngs.py\<close> is a module-level script: two configuration dictionaries, a
  directory set-up loop, and a conversion loop that calls two external rasterizers through
  \<^verbatim>\<open>subprocess.run\<close>. Everything it does is an effect, so the embedding threads a
  \<open>world\<close> (file system, the two output streams, the child processes started so far)
  through every statement, and every statement returns either a raised exception or a value
  together with the world it leaves behind: effects that happened before a \<^verbatim>\<open>raise\<close>
  stay in the world.
\<close>

subsection \<open>Paths and the file system\<close>

text \<open>
  A \<^verbatim>\<open>pathlib.Path\<close> is its list of components; \<^verbatim>\<open>p / c\<close> appends one,
  \<^verbatim>\<open>str(p)\<close> joins them with the POSIX separator and \<^verbatim>\<open>p.name\<close> is the last one.
\<close>

type_synonym path = "string list"

definition slash :: "path \<Rightarrow> string \<Rightarrow> path" where
  "slash p c = p @ [c]"

fun str_path :: "path \<Rightarrow> string" where
  "str_path [] = ''.''"
| "str_path [c] = c"
| "str_path (c # d # cs) = c @ ''/'' @ str_path (d # cs)"

definition name :: "path \<Rightarrow> string" where
  "name p = (if p = [] then [] else last p)"

datatype node = File | Dir

type_synonym filesystem = "path \<Rightarrow> node option"

subsection \<open>Exceptions\<close>

datatype py_exc =
    FileNotFoundError
  | FileExistsError
  | NotADirectoryError
  | PermissionError
  | OSError
  | KeyError
  | CalledProcessError int
  | Exception string
  | KeyboardInterrupt
  | SystemExit

text \<open>
  \<^verbatim>\<open>KeyboardInterrupt\<close> and \<^verbatim>\<open>SystemExit\<close> derive from \<^verbatim>\<open>BaseException\<close> only; all the
  others derive from \<^verbatim>\<open>Exception\<close>. A clause \<^verbatim>\<open>except C:\<close> handles the instances of
  \<^verbatim>\<open>C\<close>; a bare \<^verbatim>\<open>except:\<close> handles every exception.
\<close>

datatype exc_class = BaseException_class | Exception_class

fun isinstance :: "py_exc \<Rightarrow> exc_class \<Rightarrow> bool" where
  "isinstance e BaseException_class = True"
| "isinstance e Exception_class = (e \<noteq> KeyboardInterrupt \<and> e \<noteq> SystemExit)"

datatype except_clause = Except_bare | Except_class exc_class

fun handles :: "except_clause \<Rightarrow> py_exc \<Rightarrow> bool" where
  "handles Except_bare e = True"
| "handles (Except_class c) e = isinstance e c"

subsection \<open>The world and the environment\<close>

text \<open>
  \<open>stdout\<close> and \<open>stderr\<close> hold what reached the two streams of the script's own
  process, one entry per write; \<open>calls\<close> holds the argument vector of every
  \<^verbatim>\<open>subprocess.run\<close> made so far, in order.
\<close>

record world =
  fs :: filesystem
  stdout :: "string list"
  stderr :: "string list"
  calls :: "string list list"

text \<open>
  What a child process did: it exited with a status, or \<^verbatim>\<open>subprocess.run\<close> raised (the
  program could not be launched, an interrupt arrived while waiting for it, its output
  could not be decoded, ...). Either way it may have written text to its two streams.
\<close>

datatype child_result =
    Exited int string string
  | Aborted py_exc string string

text \<open>
  The external tools and the operating system are parameters of the run. A tool is opaque:
  from the number of processes started before it, its argument vector and the file system
  it finds, it yields a result and the file system it leaves. The operating system may
  refuse to create a directory that does not exist yet.
\<close>

record env =
  tool :: "nat \<Rightarrow> string list \<Rightarrow> filesystem \<Rightarrow> child_result \<times> filesystem"
  os_mkdir_error :: "filesystem \<Rightarrow> path \<Rightarrow> py_exc option"

type_synonym 'a outcome = "(py_exc + 'a) \<times> world"

subsection \<open>Library calls\<close>

text \<open>
  \<^verbatim>\<open>print(line)\<close> and \<^verbatim>\<open>Path.exists()\<close>, as far as they succeed: the line is appended to
  standard output, and the answer is whether the file system has something at the path.
  Both calls can also raise; the calls with their failures are \<open>print_io\<close> and
  \<open>exists_io\<close> below.
\<close>

definition print :: "string \<Rightarrow> world \<Rightarrow> world" where
  "print line w = w\<lparr>stdout := stdout w @ [line]\<rparr>"

definition exists_path :: "world \<Rightarrow> path \<Rightarrow> bool" where
  "exists_path w p = (fs w p \<noteq> None)"

definition ancestors :: "path \<Rightarrow> path list" where
  "ancestors p = map (\<lambda>n. take n p) [1..<length p]"

definition make_dirs :: "filesystem \<Rightarrow> path list \<Rightarrow> filesystem" where
  "make_dirs f ps = (\<lambda>q. if q \<in> set ps \<and> f q = None then Some Dir else f q)"

text \<open>
  \<^verbatim>\<open>Path.mkdir(parents=True, exist_ok=True)\<close>: a directory that is already there is left
  alone and is no error; a file in its place, or in the place of an ancestor, is one; else
  the directory and its missing ancestors are created unless the operating system refuses.
\<close>

definition mkdir :: "env \<Rightarrow> path \<Rightarrow> world \<Rightarrow> unit outcome" where
  "mkdir E p w =
     (case fs w p of
        Some Dir \<Rightarrow> (Inr (), w)
      | Some File \<Rightarrow> (Inl FileExistsError, w)
      | None \<Rightarrow>
          if \<exists>a \<in> set (ancestors p). fs w a = Some File then (Inl NotADirectoryError, w)
          else (case os_mkdir_error E (fs w) p of
                  Some e \<Rightarrow> (Inl e, w)
                | None \<Rightarrow> (Inr (), w\<lparr>fs := make_dirs (fs w) (ancestors p @ [p])\<rparr>)))"

text \<open>
  \<^verbatim>\<open>subprocess.run(cmd, check=..., capture_output=...)\<close>. The child is started (it is the
  next entry of \<open>calls\<close>) and changes the file system as the tool does. With
  \<^verbatim>\<open>capture_output\<close> its two streams are pipes read into the returned object; without,
  the child inherits the script's streams and its text lands there. With \<^verbatim>\<open>check\<close> a
  non-zero exit status raises \<^verbatim>\<open>CalledProcessError\<close>.
\<close>

record completed_process =
  returncode :: int
  captured_stdout :: "string option"
  captured_stderr :: "string option"

definition emit :: "string \<Rightarrow> string list \<Rightarrow> string list" where
  "emit t stream = (if t = [] then stream else stream @ [t])"

definition subprocess_run ::
  "env \<Rightarrow> string list \<Rightarrow> bool \<Rightarrow> bool \<Rightarrow> world \<Rightarrow> completed_process outcome" where
  "subprocess_run E cmd check capture_output w =
     (case tool E (length (calls w)) cmd (fs w) of
        (Exited rc out err, f) \<Rightarrow>
          (let w1 = w\<lparr>fs := f, calls := calls w @ [cmd]\<rparr>;
               w2 = (if capture_output then w1
                     else w1\<lparr>stdout := emit out (stdout w1), stderr := emit err (stderr w1)\<rparr>)
           in if check \<and> rc \<noteq> 0 then (Inl (CalledProcessError rc), w2)
              else (Inr \<lparr>returncode = rc,
                         captured_stdout = (if capture_output then Some out else None),
                         captured_stderr = (if capture_output then Some err else None)\<rparr>, w2))
      | (Aborted e out err, f) \<Rightarrow>
          (let w1 = w\<lparr>fs := f, calls := calls w @ [cmd]\<rparr>;
               w2 = (if capture_output then w1
                     else w1\<lparr>stdout := emit out (stdout w1), stderr := emit err (stderr w1)\<rparr>)
           in (Inl e, w2)))"

subsection \<open>Library calls that fail\<close>

text \<open>
  Writing to standard output fails when the stream is a pipe whose reader has gone or a
  file on a full disk, and \<^verbatim>\<open>os.stat\<close>, which \<^verbatim>\<open>Path.exists\<close> calls, fails when a directory on
  the way may not be searched. Like the tools, these failures are parameters of the run:
  for the world in which the call is made, \<open>print_error\<close> is the exception that printing
  the line raises and \<open>stat_error\<close> the one that \<^verbatim>\<open>os.stat\<close> of the path raises, if any.
  An interrupt that arrives during one of the calls is such an exception too.
\<close>

record faults =
  print_error :: "world \<Rightarrow> string \<Rightarrow> py_exc option"
  stat_error :: "world \<Rightarrow> path \<Rightarrow> py_exc option"

text \<open>\<^verbatim>\<open>print(line)\<close>: a print that raises has written nothing.\<close>

definition print_io :: "faults \<Rightarrow> string \<Rightarrow> world \<Rightarrow> unit outcome" where
  "print_io X line w =
     (case print_error X w line of
        Some e \<Rightarrow> (Inl e, w)
      | None \<Rightarrow> (Inr (), print line w))"

text \<open>\<^verbatim>\<open>Path.stat()\<close>: without a failure of its own it raises \<^verbatim>\<open>FileNotFoundError\<close> for a path that has nothing.\<close>

definition stat :: "faults \<Rightarrow> path \<Rightarrow> world \<Rightarrow> node outcome" where
  "stat X p w =
     (case stat_error X w p of
        Some e \<Rightarrow> (Inl e, w)
      | None \<Rightarrow> (case fs w p of None \<Rightarrow> (Inl FileNotFoundError, w) | Some n \<Rightarrow> (Inr n, w)))"

text \<open>
  \<^verbatim>\<open>Path.exists()\<close> (Python 3.11) is \<^verbatim>\<open>try: self.stat()\<close> with a handler for \<^verbatim>\<open>OSError\<close> that
  answers \<^verbatim>\<open>False\<close> when \<^verbatim>\<open>pathlib._ignore_error\<close> holds of the exception, that is when its
  error number is \<^verbatim>\<open>ENOENT\<close>, \<^verbatim>\<open>ENOTDIR\<close>, \<^verbatim>\<open>EBADF\<close> or \<^verbatim>\<open>ELOOP\<close>, and raises it again
  otherwise; any other exception passes through. Of the exceptions above the first two
  numbers are those of \<^verbatim>\<open>FileNotFoundError\<close> and \<^verbatim>\<open>NotADirectoryError\<close>; \<open>OSError\<close> stands
  for one with a number that is not ignored.
\<close>

definition ignore_error :: "py_exc \<Rightarrow> bool" where
  "ignore_error e \<longleftrightarrow> e = FileNotFoundError \<or> e = NotADirectoryError"

definition exists_io :: "faults \<Rightarrow> path \<Rightarrow> world \<Rightarrow> bool outcome" where
  "exists_io X p w =
     (case stat X p w of
        (Inr n, w1) \<Rightarrow> (Inr True, w1)
      | (Inl e, w1) \<Rightarrow> if ignore_error e then (Inr False, w1) else (Inl e, w1))"

subsection \<open>Control structure\<close>

text \<open>A \<^verbatim>\<open>for\<close> loop: the body runs on each element in turn; an exception leaves the loop.\<close>

fun for_each :: "('a \<Rightarrow> world \<Rightarrow> unit outcome) \<Rightarrow> 'a list \<Rightarrow> world \<Rightarrow> unit outcome" where
  "for_each body [] w = (Inr (), w)"
| "for_each body (x # xs) w =
     (case body x w of
        (Inl e, w1) \<Rightarrow> (Inl e, w1)
      | (Inr u, w1) \<Rightarrow> for_each body xs w1)"

text \<open>
  \<^verbatim>\<open>try: body  except <clause>: handler\<close>: the handler runs in the world the body left
  when the body raised an exception the clause handles; any other exception propagates.
\<close>

definition try_except ::
  "(world \<Rightarrow> unit outcome) \<Rightarrow> except_clause \<Rightarrow> (world \<Rightarrow> unit outcome) \<Rightarrow> world \<Rightarrow> unit outcome" where
  "try_except body clause handler w =
     (case body w of
        (Inr u, w1) \<Rightarrow> (Inr u, w1)
      | (Inl e, w1) \<Rightarrow> if handles clause e then handler w1 else (Inl e, w1))"

text \<open>\<^verbatim>\<open>str(n)\<close> and \<^verbatim>\<open>f'{n}'\<close> for an integer: its decimal digits, with a sign if negative.\<close>

definition digit_char :: "nat \<Rightarrow> char" where
  "digit_char d = ''0123456789'' ! d"

fun str_nat :: "nat \<Rightarrow> string" where
  "str_nat n = (if n < 10 then [digit_char n] else str_nat (n div 10) @ [digit_char (n mod 10)])"

declare str_nat.simps [simp del]

definition str_int :: "int \<Rightarrow> string" where
  "str_int i = (if i < 0 then CHR ''-'' # str_nat (nat (- i)) else str_nat (nat i))"

section \<open>The script\<close>

subsection \<open>Configuration\<close>

text \<open>The two dictionaries, in insertion order (the order in which Python iterates them).\<close>

definition svg_files :: "(string \<times> string) list" where
  "svg_files =
     [(''synced-sports-primary.svg'', ''primary''),
      (''synced-sports-horizontal.svg'', ''horizontal''),
      (''synced-sports-icon.svg'', ''icon''),
      (''synced-sports-waves-only.svg'', ''waves''),
      (''synced-sports-black.svg'', ''black''),
      (''synced-sports-white.svg'', ''white''),
      (''synced-sports-wordmark.svg'', ''wordmark'')]"

definition sizes :: "(string \<times> int list) list" where
  "sizes =
     [(''small'', [32, 64]),
      (''medium'', [128, 256]),
      (''large'', [512, 1024])]"

definition svg_dir :: path where
  "svg_dir = [''SyncedSports-BrandPack'', ''Logos'', ''SVG'']"

definition png_dir :: path where
  "png_dir = [''SyncedSports-BrandPack'', ''Logos'', ''PNG'']"

text \<open>
  \<^verbatim>\<open>for category in sizes: for size in sizes[category]: body\<close>, as both phases have it. The
  subscript raises \<^verbatim>\<open>KeyError\<close> on a key the dictionary lacks.
\<close>

definition for_each_size :: "(int \<Rightarrow> world \<Rightarrow> unit outcome) \<Rightarrow> world \<Rightarrow> unit outcome" where
  "for_each_size body =
     for_each (\<lambda>category w.
        case map_of sizes category of
          None \<Rightarrow> (Inl KeyError, w)
        | Some widths \<Rightarrow> for_each body widths w)
       (map fst sizes)"

subsection \<open>Set-up phase (lines 27 to 30)\<close>

definition size_dir :: "int \<Rightarrow> path" where
  "size_dir sz = slash png_dir (str_int sz @ ''px'')"

definition create_size_subdirectories :: "env \<Rightarrow> world \<Rightarrow> unit outcome" where
  "create_size_subdirectories E = for_each_size (\<lambda>sz. mkdir E (size_dir sz))"

subsection \<open>Conversion phase (lines 35 to 74)\<close>

definition output_path :: "string \<Rightarrow> int \<Rightarrow> path" where
  "output_path base_name sz =
     slash (slash png_dir (str_int sz @ ''px''))
       (''synced-sports-'' @ base_name @ ''-'' @ str_int sz @ ''.png'')"

definition inkscape_cmd :: "path \<Rightarrow> int \<Rightarrow> path \<Rightarrow> string list" where
  "inkscape_cmd svg_path sz out =
     [''inkscape'',
      str_path svg_path,
      ''--export-width='' @ str_int sz,
      ''--export-type=png'',
      ''--export-filename='' @ str_path out]"

definition magick_cmd :: "path \<Rightarrow> int \<Rightarrow> path \<Rightarrow> string list" where
  "magick_cmd svg_path sz out =
     [''magick'', ''convert'',
      ''-background'', ''none'',
      ''-density'', ''300'',
      ''-resize'', str_int sz @ ''x'' @ str_int sz,
      str_path svg_path,
      str_path out]"

text \<open>The body of the outer \<^verbatim>\<open>try\<close> (lines 47 to 58).\<close>

definition try_inkscape :: "env \<Rightarrow> path \<Rightarrow> int \<Rightarrow> path \<Rightarrow> world \<Rightarrow> unit outcome" where
  "try_inkscape E svg_path sz out w =
     (case subprocess_run E (inkscape_cmd svg_path sz out) False True w of
        (Inl e, w1) \<Rightarrow> (Inl e, w1)
      | (Inr result, w1) \<Rightarrow>
          if returncode result = 0 then (Inr (), print (''Created '' @ name out) w1)
          else (Inl (Exception ''Inkscape failed''), w1))"

text \<open>The body of the inner \<^verbatim>\<open>try\<close> (lines 62 to 71).\<close>

definition try_magick :: "env \<Rightarrow> path \<Rightarrow> int \<Rightarrow> path \<Rightarrow> world \<Rightarrow> unit outcome" where
  "try_magick E svg_path sz out w =
     (case subprocess_run E (magick_cmd svg_path sz out) True True w of
        (Inl e, w1) \<Rightarrow> (Inl e, w1)
      | (Inr result, w1) \<Rightarrow> (Inr (), print (''Created '' @ name out @ '' (with ImageMagick)'') w1))"

definition could_not_convert :: "string \<Rightarrow> int \<Rightarrow> string" where
  "could_not_convert svg_file sz =
     ''Could not convert '' @ svg_file @ '' to '' @ str_int sz @ ''px PNG - tools not available''"

text \<open>One iteration of the innermost loop (lines 43 to 74).\<close>

definition convert_pair :: "env \<Rightarrow> string \<Rightarrow> string \<Rightarrow> int \<Rightarrow> world \<Rightarrow> unit outcome" where
  "convert_pair E svg_file base_name sz =
     (let svg_path = slash svg_dir svg_file;
          out = output_path base_name sz
      in try_except (try_inkscape E svg_path sz out) Except_bare
           (try_except (try_magick E svg_path sz out) Except_bare
              (\<lambda>w. (Inr (), print (could_not_convert svg_file sz) w))))"

definition skipping :: "string \<Rightarrow> string" where
  "skipping svg_file = ''Skipping '' @ svg_file @ '' - file not found''"

text \<open>One iteration of the outer loop (lines 36 to 74); \<^verbatim>\<open>continue\<close> ends it early.\<close>

definition convert_source :: "env \<Rightarrow> string \<times> string \<Rightarrow> world \<Rightarrow> unit outcome" where
  "convert_source E entry w =
     (case entry of (svg_file, base_name) \<Rightarrow>
        if \<not> exists_path w (slash svg_dir svg_file) then (Inr (), print (skipping svg_file) w)
        else for_each_size (convert_pair E svg_file base_name) w)"

definition convert_all :: "env \<Rightarrow> world \<Rightarrow> unit outcome" where
  "convert_all E = for_each (convert_source E) svg_files"

subsection \<open>The whole module\<close>

definition generating :: string where
  "generating = ''Generating PNG exports...''"

definition closing :: string where
  "closing = CHR 0x0A #
     ''PNG generation attempted. Some files may need manual conversion if tools are not installed.''"

definition generate_pngs :: "env \<Rightarrow> world \<Rightarrow> unit outcome" where
  "generate_pngs E w =
     (case create_size_subdirectories E w of
        (Inl e, w1) \<Rightarrow> (Inl e, w1)
      | (Inr u, w1) \<Rightarrow>
          (case convert_all E (print generating w1) of
             (Inl e, w2) \<Rightarrow> (Inl e, w2)
           | (Inr u, w2) \<Rightarrow> (Inr (), print closing w2)))"

subsection \<open>The script with failing library calls\<close>

text \<open>
  The definitions above take every \<^verbatim>\<open>print\<close> and every \<^verbatim>\<open>Path.exists\<close> as a call that
  succeeds: they are the script on a standard output that accepts every line and with a
  source directory that can be examined. Here are the same statements with the two calls
  as they are. The prints of lines 56 and 71 stand inside the \<^verbatim>\<open>try\<close> blocks, so the bare
  \<^verbatim>\<open>except:\<close> clauses handle what they raise like a failure of the tool. Lines 32, 37, 38,
  74 and 76 stand outside every \<^verbatim>\<open>try\<close>: an exception raised there leaves the script.
\<close>

definition try_inkscape_io ::
  "faults \<Rightarrow> env \<Rightarrow> path \<Rightarrow> int \<Rightarrow> path \<Rightarrow> world \<Rightarrow> unit outcome" where
  "try_inkscape_io X E svg_path sz out w =
     (case subprocess_run E (inkscape_cmd svg_path sz out) False True w of
        (Inl e, w1) \<Rightarrow> (Inl e, w1)
      | (Inr result, w1) \<Rightarrow>
          if returncode result = 0 then print_io X (''Created '' @ name out) w1
          else (Inl (Exception ''Inkscape failed''), w1))"

definition try_magick_io ::
  "faults \<Rightarrow> env \<Rightarrow> path \<Rightarrow> int \<Rightarrow> path \<Rightarrow> world \<Rightarrow> unit outcome" where
  "try_magick_io X E svg_path sz out w =
     (case subprocess_run E (magick_cmd svg_path sz out) True True w of
        (Inl e, w1) \<Rightarrow> (Inl e, w1)
      | (Inr result, w1) \<Rightarrow> print_io X (''Created '' @ name out @ '' (with ImageMagick)'') w1)"

definition convert_pair_io ::
  "faults \<Rightarrow> env \<Rightarrow> string \<Rightarrow> string \<Rightarrow> int \<Rightarrow> world \<Rightarrow> unit outcome" where
  "convert_pair_io X E svg_file base_name sz =
     (let svg_path = slash svg_dir svg_file;
          out = output_path base_name sz
      in try_except (try_inkscape_io X E svg_path sz out) Except_bare
           (try_except (try_magick_io X E svg_path sz out) Except_bare
              (print_io X (could_not_convert svg_file sz))))"

definition convert_source_io :: "faults \<Rightarrow> env \<Rightarrow> string \<times> string \<Rightarrow> world \<Rightarrow> unit outcome" where
  "convert_source_io X E entry w =
     (case entry of (svg_file, base_name) \<Rightarrow>
        (case exists_io X (slash svg_dir svg_file) w of
           (Inl e, w1) \<Rightarrow> (Inl e, w1)
         | (Inr found, w1) \<Rightarrow>
             if \<not> found then print_io X (skipping svg_file) w1
             else for_each_size (convert_pair_io X E svg_file base_name) w1))"

definition convert_all_io :: "faults \<Rightarrow> env \<Rightarrow> world \<Rightarrow> unit outcome" where
  "convert_all_io X E = for_each (convert_source_io X E) svg_files"

definition generate_pngs_io :: "faults \<Rightarrow> env \<Rightarrow> world \<Rightarrow> unit outcome" where
  "generate_pngs_io X E w =
     (case create_size_subdirectories E w of
        (Inl e, w1) \<Rightarrow> (Inl e, w1)
      | (Inr u, w1) \<Rightarrow>
          (case print_io X generating w1 of
             (Inl e, w2) \<Rightarrow> (Inl e, w2)
           | (Inr u, w2) \<Rightarrow>
               (case convert_all_io X E w2 of
                  (Inl e, w3) \<Rightarrow> (Inl e, w3)
                | (Inr u, w3) \<Rightarrow> print_io X closing w3)))"

section \<open>Notions used in the statements\<close>

text \<open>The pixel widths of all size categories, in the order the loops visit them.\<close>

definition widths :: "int list" where
  "widths = concat (map snd sizes)"

text \<open>A child process counts as successful exactly when it exited with status zero.\<close>

definition exit_ok :: "child_result \<Rightarrow> bool" where
  "exit_ok r = (case r of Exited rc out err \<Rightarrow> rc = 0 | Aborted e out err \<Rightarrow> False)"

text \<open>What a statement added to the list of child processes and to standard output.\<close>

definition new_calls :: "world \<Rightarrow> world \<Rightarrow> string list list" where
  "new_calls w w' = drop (length (calls w)) (calls w')"

definition new_stdout :: "world \<Rightarrow> world \<Rightarrow> string list" where
  "new_stdout w w' = drop (length (stdout w)) (stdout w')"

subsection \<open>Scenarios\<close>

text \<open>Neither tool is installed: launching either raises \<^verbatim>\<open>FileNotFoundError\<close>.\<close>

definition no_tools :: env where
  "no_tools = \<lparr>tool = (\<lambda>n cmd f. (Aborted FileNotFoundError [] [], f)),
                os_mkdir_error = (\<lambda>f p. None)\<rparr>"

text \<open>Only the secondary tool is installed, and it succeeds.\<close>

definition magick_only :: env where
  "magick_only =
     \<lparr>tool = (\<lambda>n cmd f. if hd cmd = ''magick'' then (Exited 0 [] [], f)
                          else (Aborted FileNotFoundError [] [], f)),
      os_mkdir_error = (\<lambda>f p. None)\<rparr>"

text \<open>The source directory holds \<^verbatim>\<open>synced-sports-icon.svg\<close> only; nothing has run yet.\<close>

definition icon_only :: world where
  "icon_only = \<lparr>fs = [slash svg_dir ''synced-sports-icon.svg'' \<mapsto> File],
                 stdout = [], stderr = [], calls = []\<rparr>"

text \<open>Neither tool is installed and the operating system refuses to create directories.\<close>

definition read_only :: env where
  "read_only = \<lparr>tool = (\<lambda>n cmd f. (Aborted FileNotFoundError [] [], f)),
                 os_mkdir_error = (\<lambda>f p. Some PermissionError)\<rparr>"


text \<open>The output path as the specification writes it.\<close>

definition spec_output_path :: "string \<Rightarrow> int \<Rightarrow> string" where
  "spec_output_path token width =
     ''SyncedSports-BrandPack/Logos/PNG/'' @ str_int width @ ''px/synced-sports-'' @ token @
     ''-'' @ str_int width @ ''.png''"

text \<open>The same tools and operating system, with every child process silenced.\<close>

definition mute :: "env \<Rightarrow> env" where
  "mute E = E\<lparr>tool := (\<lambda>n cmd f.
     case tool E n cmd f of
       (Exited rc out err, f') \<Rightarrow> (Exited rc [] [], f')
     | (Aborted e out err, f') \<Rightarrow> (Aborted e [] [], f'))\<rparr>"

text \<open>The lines the script itself prints.\<close>

definition status_line :: "string \<Rightarrow> bool" where
  "status_line l \<longleftrightarrow>
     l = generating \<or> l = closing \<or>
     (\<exists>(f, t) \<in> set svg_files.
        l = skipping f \<or>
        (\<exists>sz \<in> set widths.
           l = ''Created '' @ name (output_path t sz) \<or>
           l = ''Created '' @ name (output_path t sz) @ '' (with ImageMagick)'' \<or>
           l = could_not_convert f sz))"

text \<open>Both tools print diagnostics and fail.\<close>

definition chatty :: env where
  "chatty = \<lparr>tool = (\<lambda>n cmd f. (Exited 1 ''rendering'' ''error: cannot open display'', f)),
              os_mkdir_error = (\<lambda>f p. None)\<rparr>"

text \<open>
  No invocation of a tool succeeds, and none leaves a trace in the file system (as when
  neither tool is installed).
\<close>

definition no_tool_works :: "env \<Rightarrow> bool" where
  "no_tool_works E \<longleftrightarrow> (\<forall>n cmd f. \<not> exit_ok (fst (tool E n cmd f)) \<and> snd (tool E n cmd f) = f)"

text \<open>The tools neither create nor remove nor replace a file of the source directory.\<close>

definition tools_keep_sources :: "env \<Rightarrow> bool" where
  "tools_keep_sources E \<longleftrightarrow>
     (\<forall>n cmd f file. snd (tool E n cmd f) (slash svg_dir file) = f (slash svg_dir file))"


text \<open>
  The destination a rasterizer command names: the value of \<^verbatim>\<open>--export-filename=\<close> for the
  primary tool, the last argument for the secondary.
\<close>

definition dest :: "string list \<Rightarrow> string" where
  "dest cmd = (if hd cmd = ''inkscape'' then drop (length ''--export-filename='') (last cmd)
               else last cmd)"

text \<open>
  A command line that neither reads the given source nor writes one of the output paths of
  the given token.
\<close>

definition unrelated_to :: "string \<Rightarrow> string \<Rightarrow> string list \<Rightarrow> bool" where
  "unrelated_to file tok cmd \<longleftrightarrow>
     str_path (slash svg_dir file) \<notin> set cmd \<and>
     (\<forall>sz \<in> set widths. dest cmd \<noteq> str_path (output_path tok sz))"

text \<open>The source directory is empty and nothing has run yet.\<close>

definition no_sources :: world where
  "no_sources = \<lparr>fs = Map.empty, stdout = [], stderr = [], calls = []\<rparr>"

text \<open>
  The output paths a run is to produce: one per width for every registered source that
  exists, in the order of the sweep.
\<close>

definition planned_outputs :: "world \<Rightarrow> string list" where
  "planned_outputs w =
     concat (map (\<lambda>(f, t). if exists_path w (slash svg_dir f)
                             then map (\<lambda>sz. str_path (output_path t sz)) widths
                             else []) svg_files)"

text \<open>
  The primary and the secondary command for a pair, with the specified output path as the
  destination: the fifth argument of the primary, after \<^verbatim>\<open>--export-filename=\<close>, and the
  last of the secondary.
\<close>

definition primary_call :: "string \<Rightarrow> string \<Rightarrow> int \<Rightarrow> string list \<Rightarrow> bool" where
  "primary_call f t sz cmd \<longleftrightarrow>
     cmd = inkscape_cmd (slash svg_dir f) sz (output_path t sz) \<and>
     cmd ! 4 = ''--export-filename='' @ spec_output_path t sz"

definition secondary_call :: "string \<Rightarrow> string \<Rightarrow> int \<Rightarrow> string list \<Rightarrow> bool" where
  "secondary_call f t sz cmd \<longleftrightarrow>
     cmd = magick_cmd (slash svg_dir f) sz (output_path t sz) \<and>
     cmd ! 9 = spec_output_path t sz"

text \<open>
  The processes of one attempt at a pair (source, token, width): the primary command for
  that pair, alone or followed by the secondary command for that pair.
\<close>

definition attempt :: "string \<times> string \<times> int \<Rightarrow> string list list \<Rightarrow> bool" where
  "attempt x cs \<longleftrightarrow>
     (case x of (f, t, sz) \<Rightarrow>
        \<exists>p. primary_call f t sz p \<and> (cs = [p] \<or> (\<exists>s. secondary_call f t sz s \<and> cs = [p, s])))"

text \<open>
  The pairs a sweep attempts: every width for every registered source that exists, in the
  order of the loops.
\<close>

definition attempted_pairs :: "world \<Rightarrow> (string \<times> string \<times> int) list" where
  "attempted_pairs w =
     concat (map (\<lambda>(f, t). if exists_path w (slash svg_dir f)
                             then map (\<lambda>sz. (f, t, sz)) widths
                             else []) svg_files)"

text \<open>No library call fails.\<close>

definition no_fault :: "faults \<Rightarrow> bool" where
  "no_fault X \<longleftrightarrow> (\<forall>w l. print_error X w l = None) \<and> (\<forall>w p. stat_error X w p = None)"

text \<open>
  The lines printed outside the \<^verbatim>\<open>try\<close> blocks (lines 32, 38, 74 and 76 of the script), and
  an exception raised in a world by a call outside the \<^verbatim>\<open>try\<close> blocks: by the print of such
  a line, or by the existence check of a registered source (line 37), which lets through
  what \<^verbatim>\<open>os.stat\<close> raises unless it is one of the ignored errors.
\<close>

definition unguarded_line :: "string \<Rightarrow> bool" where
  "unguarded_line l \<longleftrightarrow>
     l = generating \<or> l = closing \<or>
     (\<exists>(f, t) \<in> set svg_files. l = skipping f \<or> (\<exists>sz \<in> set widths. l = could_not_convert f sz))"

definition raised_unguarded :: "faults \<Rightarrow> world \<Rightarrow> py_exc \<Rightarrow> bool" where
  "raised_unguarded X w e \<longleftrightarrow>
     (\<exists>l. unguarded_line l \<and> print_error X w l = Some e) \<or>
     (\<exists>(f, t) \<in> set svg_files. stat_error X w (slash svg_dir f) = Some e \<and> \<not> ignore_error e)"

text \<open>
  The line an iteration of the innermost loop prints about its pair, the lines of one
  registry entry (the skip notice, or one line for each width in turn), and the output of
  a run that went through the whole sweep.
\<close>

definition pair_line :: "string \<Rightarrow> string \<Rightarrow> int \<Rightarrow> string \<Rightarrow> bool" where
  "pair_line f t sz l \<longleftrightarrow>
     l = ''Created '' @ name (output_path t sz) \<or>
     l = ''Created '' @ name (output_path t sz) @ '' (with ImageMagick)'' \<or>
     l = could_not_convert f sz"

definition source_lines :: "string \<times> string \<Rightarrow> string list \<Rightarrow> bool" where
  "source_lines x ls \<longleftrightarrow>
     (case x of (f, t) \<Rightarrow> ls = [skipping f] \<or> list_all2 (pair_line f t) widths ls)"

definition complete_report :: "string list \<Rightarrow> bool" where
  "complete_report ls \<longleftrightarrow>
     (\<exists>lss. ls = generating # concat lss @ [closing] \<and> list_all2 source_lines svg_files lss)"

text \<open>Every library call succeeds.\<close>

definition quiet :: faults where
  "quiet = \<lparr>print_error = (\<lambda>w l. None), stat_error = (\<lambda>w p. None)\<rparr>"

text \<open>The source directory may not be searched: every \<^verbatim>\<open>os.stat\<close> raises \<^verbatim>\<open>PermissionError\<close>.\<close>

definition unreadable_sources :: faults where
  "unreadable_sources = \<lparr>print_error = (\<lambda>w l. None), stat_error = (\<lambda>w p. Some PermissionError)\<rparr>"

text \<open>Standard output is a pipe whose reader has gone: every print raises.\<close>

definition broken_pipe :: faults where
  "broken_pipe = \<lparr>print_error = (\<lambda>w l. Some OSError), stat_error = (\<lambda>w p. None)\<rparr>"

text \<open>Standard output is a pipe whose reader goes away when \<open>n\<close> lines have been written.\<close>

definition pipe_breaks_at :: "nat \<Rightarrow> faults" where
  "pipe_breaks_at n =
     \<lparr>print_error = (\<lambda>w l. if length (stdout w) = n then Some OSError else None),
      stat_error = (\<lambda>w p. None)\<rparr>"

section \<open>Evaluation and loop lemmas\<close>

lemma str_nat_numeral [simp]:
  "str_nat (numeral k) =
     (if (numeral k :: nat) < 10 then [digit_char (numeral k)]
      else str_nat (numeral k div 10) @ [digit_char (numeral k mod 10)])"
  by (rule str_nat.simps)

lemma str_nat_small [simp]: "str_nat (Suc 0) = ''1''" "str_nat 1 = ''1''" "str_nat 0 = ''0''"
  by (simp_all add: str_nat.simps digit_char_def)

lemma widths_eq: "widths = [32, 64, 128, 256, 512, 1024]"
  by (simp add: widths_def sizes_def)

text \<open>The nested loop over categories and their widths visits \<open>widths\<close> in order.\<close>

lemma for_each_size_flat: "for_each_size body w = for_each body widths w"
proof -
  have step: "for_each body (xs @ ys) w0 =
      (case for_each body xs w0 of (Inl e, w1) \<Rightarrow> (Inl e, w1) | (Inr u, w1) \<Rightarrow> for_each body ys w1)"
    for xs ys :: "int list" and w0
    by (induction xs arbitrary: w0) (auto split: prod.splits sum.splits)
  show ?thesis
    unfolding for_each_size_def widths_def sizes_def
    by (simp add: step split: prod.splits sum.splits)
qed

text \<open>A reflexive and transitive relation that every iteration respects holds across the loop.\<close>

lemma for_each_rel:
  assumes refl: "\<And>w. R w w"
    and trans: "\<And>a b c. R a b \<Longrightarrow> R b c \<Longrightarrow> R a c"
    and step: "\<And>x w. x \<in> set xs \<Longrightarrow> R w (snd (body x w))"
  shows "R w (snd (for_each body xs w))"
  using step
proof (induction xs arbitrary: w)
  case Nil
  show ?case by (simp add: refl)
next
  case (Cons x xs)
  have first: "R w (snd (body x w))" by (rule Cons.prems) simp
  show ?case
  proof (cases "body x w")
    case (Pair r w1)
    show ?thesis
    proof (cases r)
      case (Inl e)
      with Pair first show ?thesis by simp
    next
      case (Inr u)
      have "R w1 (snd (for_each body xs w1))"
        by (rule Cons.IH) (simp add: Cons.prems)
      with Pair Inr first show ?thesis by (auto intro: trans)
    qed
  qed
qed

lemma for_each_ok:
  assumes "\<And>x w. x \<in> set xs \<Longrightarrow> fst (body x w) = Inr ()"
  shows "fst (for_each body xs w) = Inr ()"
  using assms
proof (induction xs arbitrary: w)
  case Nil
  show ?case by simp
next
  case (Cons x xs)
  have "fst (body x w) = Inr ()" by (rule Cons.prems) simp
  moreover have "fst (for_each body xs w1) = Inr ()" for w1
    by (rule Cons.IH) (simp add: Cons.prems)
  ultimately show ?case by (auto split: prod.splits sum.splits)
qed

section \<open>One conversion\<close>

lemma name_output_path [simp]:
  "name (output_path t sz) = ''synced-sports-'' @ t @ ''-'' @ str_int sz @ ''.png''"
  by (simp add: name_def output_path_def slash_def)

text \<open>What one iteration of the innermost loop does, by the results of the two tools.\<close>

lemma convert_pair_eq:
  fixes E f t sz w
  defines "ink \<equiv> inkscape_cmd (slash svg_dir f) sz (output_path t sz)"
    and "mag \<equiv> magick_cmd (slash svg_dir f) sz (output_path t sz)"
  defines "p1 \<equiv> tool E (length (calls w)) ink (fs w)"
  defines "p2 \<equiv> tool E (Suc (length (calls w))) mag (snd p1)"
  shows "convert_pair E f t sz w =
     (Inr (),
      if exit_ok (fst p1) then
        w\<lparr>fs := snd p1, calls := calls w @ [ink],
          stdout := stdout w @ [''Created '' @ name (output_path t sz)]\<rparr>
      else if exit_ok (fst p2) then
        w\<lparr>fs := snd p2, calls := calls w @ [ink, mag],
          stdout := stdout w @ [''Created '' @ name (output_path t sz) @ '' (with ImageMagick)'']\<rparr>
      else
        w\<lparr>fs := snd p2, calls := calls w @ [ink, mag],
          stdout := stdout w @ [could_not_convert f sz]\<rparr>)"
proof -
  obtain r1 f1 where t1: "tool E (length (calls w)) ink (fs w) = (r1, f1)"
    by (cases "tool E (length (calls w)) ink (fs w)")
  obtain r2 f2 where t2: "tool E (Suc (length (calls w))) mag f1 = (r2, f2)"
    by (cases "tool E (Suc (length (calls w))) mag f1")
  show ?thesis
    unfolding p2_def p1_def
    using t1 t2 unfolding ink_def mag_def
    by (cases r1; cases r2)
      (simp_all add: convert_pair_def try_except_def try_inkscape_def try_magick_def
        subprocess_run_def print_def exit_ok_def Let_def)
qed

lemma cmds_differ [simp]:
  "inkscape_cmd p sz out \<noteq> magick_cmd p' sz' out'"
  "magick_cmd p' sz' out' \<noteq> inkscape_cmd p sz out"
  by (simp_all add: inkscape_cmd_def magick_cmd_def)

section \<open>The phases\<close>

lemma convert_pair_ok: "fst (convert_pair E f t sz w) = Inr ()"
  by (simp add: convert_pair_eq)

lemma convert_source_ok: "fst (convert_source E x w) = Inr ()"
  by (cases x) (simp add: convert_source_def for_each_size_flat for_each_ok convert_pair_ok)

lemma convert_all_ok: "fst (convert_all E w) = Inr ()"
  by (simp add: convert_all_def for_each_ok convert_source_ok)

lemma create_size_subdirectories_flat:
  "create_size_subdirectories E w = for_each (\<lambda>sz. mkdir E (size_dir sz)) widths w"
  by (simp add: create_size_subdirectories_def for_each_size_flat)

lemma generate_pngs_setup_failed:
  "fst (create_size_subdirectories E w) = Inl e \<Longrightarrow>
     generate_pngs E w = (Inl e, snd (create_size_subdirectories E w))"
  by (cases "create_size_subdirectories E w") (simp add: generate_pngs_def)

lemma generate_pngs_setup_ok:
  "fst (create_size_subdirectories E w) = Inr () \<Longrightarrow>
     generate_pngs E w =
       (Inr (), print closing (snd (convert_all E (print generating (snd (create_size_subdirectories E w))))))"
  using convert_all_ok [of E "print generating (snd (create_size_subdirectories E w))"]
  by (cases "create_size_subdirectories E w";
      cases "convert_all E (print generating (snd (create_size_subdirectories E w)))")
    (simp add: generate_pngs_def)

lemma ancestors_4 [simp]: "ancestors [a, b, c, d] = [[a], [a, b], [a, b, c]]"
  by (simp add: ancestors_def upt_rec)

text \<open>A clause \<^verbatim>\<open>except Exception:\<close> in the same place would let an interrupt through.\<close>

lemma except_Exception_would_propagate:
  "try_except (\<lambda>w. (Inl KeyboardInterrupt, w)) (Except_class Exception_class) handler w =
     (Inl KeyboardInterrupt, w)"
  by (simp add: try_except_def)

lemma for_each_keeps:
  assumes "\<And>y w. Q w \<Longrightarrow> Q (snd (body y w))" and "Q w"
  shows "Q (snd (for_each body xs w))"
proof -
  have "Q w \<longrightarrow> Q (snd (for_each body xs w))"
    by (rule for_each_rel [where R = "\<lambda>a b. Q a \<longrightarrow> Q b"]) (simp_all add: assms(1))
  with assms(2) show ?thesis by simp
qed

lemma for_each_establishes:
  assumes ok: "fst (for_each body xs w) = Inr ()"
    and est: "\<And>x w. fst (body x w) = Inr () \<Longrightarrow> Q x (snd (body x w))"
    and keep: "\<And>x y w. Q x w \<Longrightarrow> Q x (snd (body y w))"
  shows "\<forall>x \<in> set xs. Q x (snd (for_each body xs w))"
  using ok
proof (induction xs arbitrary: w)
  case Nil
  show ?case by simp
next
  case (Cons x xs)
  obtain r w1 where b: "body x w = (r, w1)" by (cases "body x w")
  with Cons.prems have r: "r = Inr ()" by (cases r) auto
  with b Cons.prems have rest: "fst (for_each body xs w1) = Inr ()" by simp
  have "Q x w1" using est [of x w] b r by simp
  then have "Q x (snd (for_each body xs w1))"
    by (rule for_each_keeps [where Q = "Q x", rotated]) (rule keep)
  moreover have "\<forall>y \<in> set xs. Q y (snd (for_each body xs w1))" by (rule Cons.IH [OF rest])
  ultimately show ?case using b r by simp
qed

lemma for_each_fixed:
  assumes "\<And>x. x \<in> set xs \<Longrightarrow> body x w = (Inr (), w)"
  shows "for_each body xs w = (Inr (), w)"
  using assms by (induction xs) simp_all

lemma mkdir_streams [simp]:
  "calls (snd (mkdir E p w)) = calls w"
  "stdout (snd (mkdir E p w)) = stdout w"
  "stderr (snd (mkdir E p w)) = stderr w"
  by (simp_all add: mkdir_def split: option.splits node.splits)

lemma mkdir_ok_dir: "fst (mkdir E p w) = Inr () \<Longrightarrow> fs (snd (mkdir E p w)) p = Some Dir"
  by (auto simp: mkdir_def make_dirs_def split: option.splits node.splits if_splits)

lemma mkdir_keeps_dir: "fs w q = Some Dir \<Longrightarrow> fs (snd (mkdir E p w)) q = Some Dir"
  by (auto simp: mkdir_def make_dirs_def split: option.splits node.splits if_splits)

lemma mkdir_existing: "fs w p = Some Dir \<Longrightarrow> mkdir E p w = (Inr (), w)"
  by (simp add: mkdir_def)

lemma size_dirs: "map size_dir widths =
    map (slash png_dir) [''32px'', ''64px'', ''128px'', ''256px'', ''512px'', ''1024px'']"
  by (simp add: widths_eq size_dir_def str_int_def digit_char_def)

lemma for_each_appends:
  fixes lg :: "world \<Rightarrow> 'b list"
  assumes "I w"
    and "\<And>x w. x \<in> set xs \<Longrightarrow> I w \<Longrightarrow>
           fst (body x w) = Inr () \<and> I (snd (body x w)) \<and>
           (\<exists>cs. lg (snd (body x w)) = lg w @ cs \<and> P x cs)"
  shows "fst (for_each body xs w) = Inr () \<and> I (snd (for_each body xs w)) \<and>
         (\<exists>css. lg (snd (for_each body xs w)) = lg w @ concat css \<and> list_all2 P xs css)"
  using assms
proof (induction xs arbitrary: w)
  case Nil
  then show ?case by simp
next
  case (Cons x xs)
  obtain r w1 where b: "body x w = (r, w1)" by (cases "body x w")
  from Cons.prems(2) [of x w] Cons.prems(1) b
  obtain cs where r: "r = Inr ()" and i1: "I w1" and l1: "lg w1 = lg w @ cs" and p: "P x cs"
    by auto
  have "fst (for_each body xs w1) = Inr () \<and> I (snd (for_each body xs w1)) \<and>
         (\<exists>css. lg (snd (for_each body xs w1)) = lg w1 @ concat css \<and> list_all2 P xs css)"
    by (rule Cons.IH [OF i1]) (simp add: Cons.prems(2))
  then obtain css where ok: "fst (for_each body xs w1) = Inr ()"
    and i2: "I (snd (for_each body xs w1))"
    and l2: "lg (snd (for_each body xs w1)) = lg w1 @ concat css"
    and ps: "list_all2 P xs css"
    by auto
  have "lg (snd (for_each body xs w1)) = lg w @ concat (cs # css)"
    using l1 l2 by simp
  moreover have "list_all2 P (x # xs) (cs # css)" using p ps by simp
  ultimately have "\<exists>css'. lg (snd (for_each body xs w1)) = lg w @ concat css' \<and>
      list_all2 P (x # xs) css'" by blast
  with ok i2 b r show ?case by simp
qed

lemma str_output_path: "str_path (output_path t sz) = spec_output_path t sz"
  by (simp add: output_path_def spec_output_path_def slash_def png_dir_def)

lemma convert_pair_calls:
  "\<exists>cs. calls (snd (convert_pair E f t sz w)) = calls w @ cs \<and>
     (cs = [inkscape_cmd (slash svg_dir f) sz (output_path t sz)] \<or>
      cs = [inkscape_cmd (slash svg_dir f) sz (output_path t sz),
            magick_cmd (slash svg_dir f) sz (output_path t sz)])"
  by (simp add: convert_pair_eq)

lemma list_all_concat: "list_all2 (\<lambda>x cs. list_all Q cs) xs css \<Longrightarrow> list_all Q (concat css)"
  by (induction xs css rule: list_all2_induct) simp_all

lemma create_size_subdirectories_streams [simp]:
  "calls (snd (create_size_subdirectories E w)) = calls w"
  "stdout (snd (create_size_subdirectories E w)) = stdout w"
  "stderr (snd (create_size_subdirectories E w)) = stderr w"
proof -
  show "calls (snd (create_size_subdirectories E w)) = calls w"
    unfolding create_size_subdirectories_flat
    by (rule sym, rule for_each_rel [where R = "\<lambda>a b. calls a = calls b"]) simp_all
  show "stdout (snd (create_size_subdirectories E w)) = stdout w"
    unfolding create_size_subdirectories_flat
    by (rule sym, rule for_each_rel [where R = "\<lambda>a b. stdout a = stdout b"]) simp_all
  show "stderr (snd (create_size_subdirectories E w)) = stderr w"
    unfolding create_size_subdirectories_flat
    by (rule sym, rule for_each_rel [where R = "\<lambda>a b. stderr a = stderr b"]) simp_all
qed

lemma uncaptured_output_is_inherited:
  "tool E (length (calls w)) cmd (fs w) = (Exited rc out err, f) \<Longrightarrow> out \<noteq> [] \<Longrightarrow>
   stdout (snd (subprocess_run E cmd check False w)) = stdout w @ [out]"
  by (simp add: subprocess_run_def emit_def Let_def)

lemma captured_output_is_kept_back:
  "stdout (snd (subprocess_run E cmd check True w)) = stdout w"
  "stderr (snd (subprocess_run E cmd check True w)) = stderr w"
  by (simp_all add: subprocess_run_def Let_def split: prod.splits child_result.splits)

lemma mute_tool:
  "exit_ok (fst (tool (mute E) n cmd f)) = exit_ok (fst (tool E n cmd f))"
  "snd (tool (mute E) n cmd f) = snd (tool E n cmd f)"
  by (simp_all add: mute_def exit_ok_def split: prod.splits child_result.splits)

lemma convert_pair_mute: "convert_pair (mute E) f t sz w = convert_pair E f t sz w"
  unfolding convert_pair_eq by (simp add: mute_tool)

lemma mute_os [simp]: "os_mkdir_error (mute E) = os_mkdir_error E"
  by (simp add: mute_def)

lemma mkdir_mute: "mkdir (mute E) p w = mkdir E p w"
  by (auto simp: mkdir_def split: option.splits node.splits)

lemma generate_pngs_mute: "generate_pngs (mute E) w = generate_pngs E w"
proof -
  have a: "convert_pair (mute E) = convert_pair E"
    by (intro ext) (rule convert_pair_mute)
  have b: "mkdir (mute E) = mkdir E"
    by (intro ext) (rule mkdir_mute)
  have c: "convert_source (mute E) = convert_source E"
    by (intro ext) (simp add: convert_source_def a split: prod.splits)
  have d: "convert_all (mute E) = convert_all E"
    by (intro ext) (simp add: convert_all_def c)
  have e: "create_size_subdirectories (mute E) = create_size_subdirectories E"
    by (intro ext) (simp add: create_size_subdirectories_def b)
  show ?thesis
    unfolding generate_pngs_def d e by (rule refl)
qed

lemma convert_pair_stdout:
  "\<exists>ls. stdout (snd (convert_pair E f t sz w)) = stdout w @ ls \<and>
     (ls = [''Created '' @ name (output_path t sz)] \<or>
      ls = [''Created '' @ name (output_path t sz) @ '' (with ImageMagick)''] \<or>
      ls = [could_not_convert f sz])"
  by (simp add: convert_pair_eq)

lemma convert_source_stdout:
  assumes x: "x \<in> set svg_files"
  shows "\<exists>ls. stdout (snd (convert_source E x w)) = stdout w @ ls \<and> list_all status_line ls"
proof (cases x)
  case (Pair f t)
  show ?thesis
  proof (cases "exists_path w (slash svg_dir f)")
    case False
    have "status_line (skipping f)"
      unfolding status_line_def using x Pair by blast
    with False Pair show ?thesis by (simp add: convert_source_def print_def)
  next
    case True
    have "fst (for_each (convert_pair E f t) widths w) = Inr () \<and> True \<and>
      (\<exists>css. stdout (snd (for_each (convert_pair E f t) widths w)) = stdout w @ concat css \<and>
         list_all2 (\<lambda>sz ls. list_all status_line ls) widths css)"
    proof (rule for_each_appends [where I = "\<lambda>w. True"], simp, intro conjI)
      fix sz w'
      assume sz: "sz \<in> set widths"
      show "fst (convert_pair E f t sz w') = Inr ()" by (rule convert_pair_ok)
      show True ..
      have "status_line (''Created '' @ name (output_path t sz))"
        "status_line (''Created '' @ name (output_path t sz) @ '' (with ImageMagick)'')"
        "status_line (could_not_convert f sz)"
        unfolding status_line_def using x Pair sz by blast+
      with convert_pair_stdout [of E f t sz w']
      show "\<exists>ls. stdout (snd (convert_pair E f t sz w')) = stdout w' @ ls \<and>
          list_all status_line ls"
        by auto
    qed
    then obtain css where "stdout (snd (for_each (convert_pair E f t) widths w)) = stdout w @ concat css"
      and "list_all2 (\<lambda>sz ls. list_all status_line ls) widths css" by blast
    with True Pair show ?thesis
      by (auto simp: convert_source_def for_each_size_flat dest: list_all_concat)
  qed
qed

lemma convert_all_stdout:
  "\<exists>ls. stdout (snd (convert_all E w)) = stdout w @ ls \<and> list_all status_line ls"
proof -
  have "fst (for_each (convert_source E) svg_files w) = Inr () \<and> True \<and>
      (\<exists>css. stdout (snd (for_each (convert_source E) svg_files w)) = stdout w @ concat css \<and>
         list_all2 (\<lambda>x ls. list_all status_line ls) svg_files css)"
    by (rule for_each_appends [where I = "\<lambda>w. True"])
      (simp_all add: convert_source_ok convert_source_stdout)
  then show ?thesis
    by (auto simp: convert_all_def dest: list_all_concat)
qed

lemma generate_pngs_stdout:
  "\<exists>ls. stdout (snd (generate_pngs E w)) = stdout w @ ls \<and> list_all status_line ls"
proof (cases "fst (create_size_subdirectories E w)")
  case (Inl e)
  then show ?thesis by (simp add: generate_pngs_setup_failed)
next
  case (Inr u)
  then have ok: "fst (create_size_subdirectories E w) = Inr ()" by simp
  have "status_line generating" "status_line closing"
    by (simp_all add: status_line_def)
  with convert_all_stdout [of E "print generating (snd (create_size_subdirectories E w))"]
  show ?thesis by (auto simp: generate_pngs_setup_ok [OF ok] print_def)
qed

lemma convert_pair_stderr [simp]: "stderr (snd (convert_pair E f t sz w)) = stderr w"
  by (simp add: convert_pair_eq)

lemma convert_source_stderr [simp]: "stderr (snd (convert_source E x w)) = stderr w"
proof (cases x)
  case (Pair f t)
  have "stderr w = stderr (snd (for_each (convert_pair E f t) widths w))"
    by (rule for_each_rel [where R = "\<lambda>a b. stderr a = stderr b"]) simp_all
  with Pair show ?thesis
    by (simp add: convert_source_def for_each_size_flat print_def)
qed

lemma convert_all_stderr [simp]: "stderr (snd (convert_all E w)) = stderr w"
  unfolding convert_all_def
  by (rule sym, rule for_each_rel [where R = "\<lambda>a b. stderr a = stderr b"]) simp_all

lemma generate_pngs_stderr: "stderr (snd (generate_pngs E w)) = stderr w"
proof (cases "fst (create_size_subdirectories E w)")
  case (Inl e)
  then show ?thesis by (simp add: generate_pngs_setup_failed)
next
  case (Inr u)
  then have ok: "fst (create_size_subdirectories E w) = Inr ()" by simp
  show ?thesis by (simp add: generate_pngs_setup_ok [OF ok] print_def)
qed

lemma print_fields [simp]:
  "stdout (print l w) = stdout w @ [l]"
  "fs (print l w) = fs w"
  "calls (print l w) = calls w"
  "stderr (print l w) = stderr w"
  by (simp_all add: print_def)

lemma mkdir_source:
  "fs (snd (mkdir E (size_dir sz) w)) (slash svg_dir file) = fs w (slash svg_dir file)"
  by (simp add: mkdir_def size_dir_def slash_def png_dir_def svg_dir_def make_dirs_def
      split: option.splits node.splits)

lemma create_size_subdirectories_source:
  "fs (snd (create_size_subdirectories E w)) (slash svg_dir file) = fs w (slash svg_dir file)"
  unfolding create_size_subdirectories_flat
  by (rule sym, rule for_each_rel [where R = "\<lambda>a b. fs a (slash svg_dir file) = fs b (slash svg_dir file)"])
    (simp_all add: mkdir_source)

lemma create_size_subdirectories_exists:
  "exists_path (snd (create_size_subdirectories E w)) (slash svg_dir file) =
     exists_path w (slash svg_dir file)"
  by (simp add: exists_path_def create_size_subdirectories_source)

lemma setup_no_tools_icon_only: "fst (create_size_subdirectories no_tools icon_only) = Inr ()"
  unfolding create_size_subdirectories_flat widths_eq
  by (simp add: mkdir_def size_dir_def png_dir_def svg_dir_def slash_def no_tools_def icon_only_def
      str_int_def digit_char_def make_dirs_def)

lemma concat_singletons: "list_all2 (\<lambda>x ls. ls = [g x]) xs css \<Longrightarrow> concat css = map g xs"
  by (induction xs css rule: list_all2_induct) simp_all

lemma concat_determined: "list_all2 (\<lambda>x ls. ls = h x) xs css \<Longrightarrow> concat css = concat (map h xs)"
  by (induction xs css rule: list_all2_induct) simp_all

lemma convert_pair_fail:
  assumes "no_tool_works E"
  shows "convert_pair E f t sz w =
     (Inr (), w\<lparr>calls := calls w @ [inkscape_cmd (slash svg_dir f) sz (output_path t sz),
                                    magick_cmd (slash svg_dir f) sz (output_path t sz)],
               stdout := stdout w @ [could_not_convert f sz]\<rparr>)"
  using assms unfolding convert_pair_eq no_tool_works_def by simp

lemma convert_source_fail:
  assumes E: "no_tool_works E"
  shows "fst (convert_source E (f, t) w) = Inr () \<and>
         fs (snd (convert_source E (f, t) w)) = fs w \<and>
         stdout (snd (convert_source E (f, t) w)) =
           stdout w @ (if exists_path w (slash svg_dir f) then map (could_not_convert f) widths
                       else [skipping f])"
proof (cases "exists_path w (slash svg_dir f)")
  case False
  then show ?thesis by (simp add: convert_source_def print_def)
next
  case True
  have "fst (for_each (convert_pair E f t) widths w) = Inr () \<and>
      fs (snd (for_each (convert_pair E f t) widths w)) = fs w \<and>
      (\<exists>css. stdout (snd (for_each (convert_pair E f t) widths w)) = stdout w @ concat css \<and>
         list_all2 (\<lambda>sz ls. ls = [could_not_convert f sz]) widths css)"
    by (rule for_each_appends [where I = "\<lambda>w'. fs w' = fs w"])
      (simp_all add: convert_pair_fail [OF E])
  with True show ?thesis
    by (auto simp: convert_source_def for_each_size_flat dest: concat_singletons)
qed

lemma convert_all_fail:
  assumes E: "no_tool_works E"
  shows "fs (snd (convert_all E w)) = fs w \<and>
         stdout (snd (convert_all E w)) =
           stdout w @ concat (map (\<lambda>(f, t). if exists_path w (slash svg_dir f)
                                            then map (could_not_convert f) widths
                                            else [skipping f]) svg_files)"
proof -
  let ?h = "\<lambda>(f, t). if exists_path w (slash svg_dir f) then map (could_not_convert f) widths
                      else [skipping f]"
  have "fst (for_each (convert_source E) svg_files w) = Inr () \<and>
      fs (snd (for_each (convert_source E) svg_files w)) = fs w \<and>
      (\<exists>css. stdout (snd (for_each (convert_source E) svg_files w)) = stdout w @ concat css \<and>
         list_all2 (\<lambda>x ls. ls = ?h x) svg_files css)"
  proof (rule for_each_appends [where I = "\<lambda>w'. fs w' = fs w"], simp)
    fix x and w' :: world
    assume "fs w' = fs w"
    then have "exists_path w' = exists_path w" by (simp add: exists_path_def fun_eq_iff)
    with convert_source_fail [OF E, of "fst x" "snd x" w'] \<open>fs w' = fs w\<close>
    show "fst (convert_source E x w') = Inr () \<and> fs (snd (convert_source E x w')) = fs w \<and>
        (\<exists>cs. stdout (snd (convert_source E x w')) = stdout w' @ cs \<and> cs = ?h x)"
      by (cases x) simp
  qed
  then show ?thesis
    by (auto simp: convert_all_def dest: concat_determined)
qed

lemma convert_pair_source:
  assumes "tools_keep_sources E"
  shows "fs (snd (convert_pair E f t sz w)) (slash svg_dir file) = fs w (slash svg_dir file)"
  using assms unfolding convert_pair_eq tools_keep_sources_def by simp

lemma convert_all_appends:
  fixes lg :: "world \<Rightarrow> 'b list"
  assumes keep: "tools_keep_sources E"
    and I: "I w"
    and pair: "\<And>f t sz w. (f, t) \<in> set svg_files \<Longrightarrow> sz \<in> set widths \<Longrightarrow> I w \<Longrightarrow>
        exists_path w (slash svg_dir f) \<Longrightarrow>
        I (snd (convert_pair E f t sz w)) \<and>
        (\<exists>cs. lg (snd (convert_pair E f t sz w)) = lg w @ cs \<and> Pp f t sz cs)"
    and skip: "\<And>f t w. (f, t) \<in> set svg_files \<Longrightarrow> I w \<Longrightarrow> \<not> exists_path w (slash svg_dir f) \<Longrightarrow>
        I (print (skipping f) w) \<and>
        (\<exists>cs. lg (print (skipping f) w) = lg w @ cs \<and> Ps (f, t) cs)"
    and compose: "\<And>f t w css. (f, t) \<in> set svg_files \<Longrightarrow> I w \<Longrightarrow>
        exists_path w (slash svg_dir f) \<Longrightarrow> list_all2 (Pp f t) widths css \<Longrightarrow>
        Ps (f, t) (concat css)"
  shows "I (snd (convert_all E w)) \<and>
         (\<exists>css. lg (snd (convert_all E w)) = lg w @ concat css \<and> list_all2 Ps svg_files css)"
proof -
  have src: "fst (convert_source E x w') = Inr () \<and> I (snd (convert_source E x w')) \<and>
      (\<exists>cs. lg (snd (convert_source E x w')) = lg w' @ cs \<and> Ps x cs)"
    if x: "x \<in> set svg_files" and i: "I w'" for x w'
  proof (cases x)
    case (Pair f t)
    show ?thesis
    proof (cases "exists_path w' (slash svg_dir f)")
      case False
      with skip [of f t w'] x Pair i show ?thesis by (simp add: convert_source_def)
    next
      case True
      let ?J = "\<lambda>w. I w \<and> exists_path w (slash svg_dir f)"
      have "fst (for_each (convert_pair E f t) widths w') = Inr () \<and>
          ?J (snd (for_each (convert_pair E f t) widths w')) \<and>
          (\<exists>css. lg (snd (for_each (convert_pair E f t) widths w')) = lg w' @ concat css \<and>
             list_all2 (Pp f t) widths css)"
      proof (rule for_each_appends [where I = ?J])
        show "?J w'" using i True by simp
      next
        fix sz w0
        assume "sz \<in> set widths" "?J w0"
        with pair [of f t sz w0] x Pair convert_pair_source [OF keep, of f t sz w0 f]
        show "fst (convert_pair E f t sz w0) = Inr () \<and> ?J (snd (convert_pair E f t sz w0)) \<and>
            (\<exists>cs. lg (snd (convert_pair E f t sz w0)) = lg w0 @ cs \<and> Pp f t sz cs)"
          by (simp add: convert_pair_ok exists_path_def)
      qed
      then obtain css where ok: "fst (for_each (convert_pair E f t) widths w') = Inr ()"
        and i': "I (snd (for_each (convert_pair E f t) widths w'))"
        and l: "lg (snd (for_each (convert_pair E f t) widths w')) = lg w' @ concat css"
        and p: "list_all2 (Pp f t) widths css"
        by blast
      from compose [of f t w' css] x Pair i True p have "Ps (f, t) (concat css)" by simp
      with ok i' l True Pair show ?thesis
        by (auto simp: convert_source_def for_each_size_flat)
    qed
  qed
  have "fst (for_each (convert_source E) svg_files w) = Inr () \<and>
      I (snd (for_each (convert_source E) svg_files w)) \<and>
      (\<exists>css. lg (snd (for_each (convert_source E) svg_files w)) = lg w @ concat css \<and>
         list_all2 Ps svg_files css)"
  proof (rule for_each_appends [where I = I])
    show "I w" by (rule I)
  next
    fix x w0
    assume "x \<in> set svg_files" "I w0"
    then show "fst (convert_source E x w0) = Inr () \<and> I (snd (convert_source E x w0)) \<and>
        (\<exists>cs. lg (snd (convert_source E x w0)) = lg w0 @ cs \<and> Ps x cs)"
      by (rule src)
  qed
  then show ?thesis by (simp add: convert_all_def)
qed

lemma dest_cmds [simp]:
  "dest (inkscape_cmd p sz out) = str_path out"
  "dest (magick_cmd p sz out) = str_path out"
  by (simp_all add: dest_def inkscape_cmd_def magick_cmd_def)

lemma registry_tokens:
  "(f, t) \<in> set svg_files \<Longrightarrow> (f', t') \<in> set svg_files \<Longrightarrow> t = t' \<Longrightarrow> f = f'"
  by (auto simp: svg_files_def)

lemma spec_output_path_inj:
  "sz \<in> set widths \<Longrightarrow> sz' \<in> set widths \<Longrightarrow>
   spec_output_path t sz = spec_output_path t' sz' \<Longrightarrow> t = t' \<and> sz = sz'"
  by (auto simp: widths_eq spec_output_path_def str_int_def digit_char_def)

lemma resize_is_no_source:
  "sz \<in> set widths \<Longrightarrow> str_int sz @ ''x'' @ str_int sz \<noteq> str_path (slash svg_dir file)"
  by (auto simp: widths_eq str_int_def digit_char_def slash_def svg_dir_def)

lemma other_source_unrelated:
  assumes f: "(f, t) \<in> set svg_files" and g: "(file, tok) \<in> set svg_files"
    and ne: "f \<noteq> file" and sz: "sz \<in> set widths"
  shows "unrelated_to file tok (inkscape_cmd (slash svg_dir f) sz (output_path t sz))"
    and "unrelated_to file tok (magick_cmd (slash svg_dir f) sz (output_path t sz))"
proof -
  have t: "t \<noteq> tok" using registry_tokens [OF f g] ne by blast
  have d: "\<forall>sz' \<in> set widths. str_path (output_path t sz) \<noteq> str_path (output_path tok sz')"
    using spec_output_path_inj [OF sz, of _ t tok] t by (auto simp: str_output_path)
  have p: "str_path (slash svg_dir file) = ''SyncedSports-BrandPack/Logos/SVG/'' @ file"
    by (simp add: slash_def svg_dir_def)
  have s: "str_path (slash svg_dir file) \<noteq> str_path (slash svg_dir f)"
    using ne by (simp add: slash_def svg_dir_def)
  have o: "str_path (slash svg_dir file) \<noteq> str_path (output_path t sz)"
    by (simp add: str_output_path spec_output_path_def slash_def svg_dir_def)
  have m1: "str_path (slash svg_dir file) \<notin>
      set (inkscape_cmd (slash svg_dir f) sz (output_path t sz))"
    unfolding inkscape_cmd_def using s by (simp add: p)
  have m2: "str_path (slash svg_dir file) \<notin>
      set (magick_cmd (slash svg_dir f) sz (output_path t sz))"
    unfolding magick_cmd_def using s o resize_is_no_source [OF sz, of "file"] by (simp add: p)
  show "unrelated_to file tok (inkscape_cmd (slash svg_dir f) sz (output_path t sz))"
    unfolding unrelated_to_def using d m1 by simp
  show "unrelated_to file tok (magick_cmd (slash svg_dir f) sz (output_path t sz))"
    unfolding unrelated_to_def using d m2 by simp
qed

lemma generate_pngs_new_calls:
  "new_calls w (snd (generate_pngs E w)) =
     (if fst (create_size_subdirectories E w) = Inr ()
      then new_calls (print generating (snd (create_size_subdirectories E w)))
             (snd (convert_all E (print generating (snd (create_size_subdirectories E w)))))
      else [])"
proof (cases "fst (create_size_subdirectories E w)")
  case (Inl e)
  then show ?thesis by (simp add: generate_pngs_setup_failed new_calls_def)
next
  case (Inr u)
  then have ok: "fst (create_size_subdirectories E w) = Inr ()" by simp
  show ?thesis by (simp add: generate_pngs_setup_ok [OF ok] new_calls_def ok)
qed

lemma count_concat:
  "list_all2 (\<lambda>x ls. count_list ls y = c x) xs css \<Longrightarrow>
   count_list (concat css) y = sum_list (map c xs)"
  by (induction xs css rule: list_all2_induct) simp_all

lemma count_concat_zero:
  "list_all2 (\<lambda>x ls. count_list ls y = 0) xs css \<Longrightarrow> count_list (concat css) y = 0"
  using count_concat [where c = "\<lambda>x. 0"] by fastforce

lemma registry_count:
  "(file, tok) \<in> set svg_files \<Longrightarrow>
   sum_list (map (\<lambda>x. if fst x = file then 1 else 0) svg_files) = (1::nat)"
  by (auto simp: svg_files_def)

lemma skipping_inj [simp]: "skipping f = skipping g \<longleftrightarrow> f = g"
  by (simp add: skipping_def)

lemma skipping_other [simp]:
  "generating \<noteq> skipping f"
  "closing \<noteq> skipping f"
  by (simp_all add: skipping_def generating_def closing_def)

lemma convert_pair_prints_no_skip:
  "\<exists>l. stdout (snd (convert_pair E f t sz w)) = stdout w @ [l] \<and> l \<noteq> skipping g"
  by (simp add: convert_pair_eq skipping_def could_not_convert_def)

lemma image_concat:
  "list_all2 (\<lambda>x cs. h ` set cs = T x) xs css \<Longrightarrow> h ` set (concat css) = (\<Union>x \<in> set xs. T x)"
  by (induction xs css rule: list_all2_induct) (simp_all add: image_Un)

lemma convert_pair_dest:
  "\<exists>cs. calls (snd (convert_pair E f t sz w)) = calls w @ cs \<and>
     dest ` set cs = {str_path (output_path t sz)}"
  using convert_pair_calls [of E f t sz w] by auto

lemma set_planned_outputs:
  "set (planned_outputs w) =
     (\<Union>x \<in> set svg_files. if exists_path w (slash svg_dir (fst x))
        then (\<lambda>sz. str_path (output_path (snd x) sz)) ` set widths else {})"
  by (auto simp: planned_outputs_def split: if_splits)

lemma planned_outputs_cong:
  assumes "list_all (\<lambda>(f, t). exists_path w2 (slash svg_dir f) = exists_path w1 (slash svg_dir f))
     svg_files"
  shows "planned_outputs w2 = planned_outputs w1"
proof -
  have "map (\<lambda>(f, t). if exists_path w2 (slash svg_dir f)
                             then map (\<lambda>sz. str_path (output_path t sz)) widths
                             else []) svg_files =
        map (\<lambda>(f, t). if exists_path w1 (slash svg_dir f)
                             then map (\<lambda>sz. str_path (output_path t sz)) widths
                             else []) svg_files"
    using assms by (intro map_cong) (auto simp: list_all_iff)
  then show ?thesis by (simp only: planned_outputs_def)
qed

lemma generate_pngs_ok_setup:
  assumes "fst (generate_pngs E w) = Inr ()"
  shows "fst (create_size_subdirectories E w) = Inr ()"
proof (cases "fst (create_size_subdirectories E w)")
  case (Inl e)
  with assms generate_pngs_setup_failed [of E w e] show ?thesis by simp
next
  case (Inr u)
  then show ?thesis by simp
qed

text \<open>The destinations of a completed run are the planned output paths.\<close>

lemma run_targets:
  assumes keep: "tools_keep_sources E" and ok: "fst (generate_pngs E w) = Inr ()"
  shows "dest ` set (new_calls w (snd (generate_pngs E w))) = set (planned_outputs w)"
proof -
  let ?W = "print generating (snd (create_size_subdirectories E w))"
  let ?I = "\<lambda>w'. \<forall>f. fs w' (slash svg_dir f) = fs ?W (slash svg_dir f)"
  let ?T = "\<lambda>x. if exists_path ?W (slash svg_dir (fst x))
        then (\<lambda>sz. str_path (output_path (snd x) sz)) ` set widths else {}"
  have ex: "exists_path ?W (slash svg_dir f) = exists_path w (slash svg_dir f)" for f
    using create_size_subdirectories_exists [of E w f] by (simp add: exists_path_def)
  have "?I (snd (convert_all E ?W)) \<and>
      (\<exists>css. calls (snd (convert_all E ?W)) = calls ?W @ concat css \<and>
         list_all2 (\<lambda>x cs. dest ` set cs = ?T x) svg_files css)"
  proof (rule convert_all_appends [OF keep, where I = ?I
        and Pp = "\<lambda>f t sz cs. dest ` set cs = {str_path (output_path t sz)}"])
    show "?I ?W" by simp
  next
    fix f t sz and w0 :: world
    assume "?I w0"
    with convert_pair_dest [of E f t sz w0] convert_pair_source [OF keep, of f t sz w0]
    show "?I (snd (convert_pair E f t sz w0)) \<and>
        (\<exists>cs. calls (snd (convert_pair E f t sz w0)) = calls w0 @ cs \<and>
           dest ` set cs = {str_path (output_path t sz)})"
      by simp
  next
    fix f t and w0 :: world
    assume "?I w0" "\<not> exists_path w0 (slash svg_dir f)"
    then show "?I (print (skipping f) w0) \<and>
        (\<exists>cs. calls (print (skipping f) w0) = calls w0 @ cs \<and> dest ` set cs = ?T (f, t))"
      by (simp add: exists_path_def)
  next
    fix f t css and w0 :: world
    assume "?I w0" "exists_path w0 (slash svg_dir f)"
      and "list_all2 (\<lambda>sz cs. dest ` set cs = {str_path (output_path t sz)}) widths css"
    with image_concat [of dest "\<lambda>sz. {str_path (output_path t sz)}" widths css]
    show "dest ` set (concat css) = ?T (f, t)"
      by (auto simp: exists_path_def)
  qed
  then obtain css where c: "calls (snd (convert_all E ?W)) = calls ?W @ concat css"
    and l: "list_all2 (\<lambda>x cs. dest ` set cs = ?T x) svg_files css"
    by blast
  have "new_calls w (snd (generate_pngs E w)) = new_calls ?W (snd (convert_all E ?W))"
    by (simp add: generate_pngs_new_calls generate_pngs_ok_setup [OF ok])
  also have "\<dots> = concat css"
    using c by (simp add: new_calls_def)
  finally have "new_calls w (snd (generate_pngs E w)) = concat css" .
  with image_concat [OF l] show ?thesis
    by (simp add: set_planned_outputs ex)
qed

lemma create_size_subdirectories_dirs:
  assumes ok: "fst (create_size_subdirectories E w) = Inr ()"
  shows "\<forall>sz \<in> set widths. fs (snd (create_size_subdirectories E w)) (size_dir sz) = Some Dir"
proof -
  have ok': "fst (for_each (\<lambda>sz. mkdir E (size_dir sz)) widths w) = Inr ()"
    using ok by (simp add: create_size_subdirectories_flat)
  show ?thesis
    unfolding create_size_subdirectories_flat
    by (rule for_each_establishes [OF ok', where Q = "\<lambda>sz w. fs w (size_dir sz) = Some Dir"])
      (simp_all add: mkdir_ok_dir mkdir_keeps_dir)
qed

lemma create_size_subdirectories_existing:
  assumes "\<forall>sz \<in> set widths. fs w (size_dir sz) = Some Dir"
  shows "create_size_subdirectories E w = (Inr (), w)"
  unfolding create_size_subdirectories_flat
  by (rule for_each_fixed) (simp add: mkdir_existing assms)

lemma no_tools_fail: "no_tool_works no_tools"
  by (simp add: no_tool_works_def no_tools_def exit_ok_def)

text \<open>With no tool installed, a second run in the world the first one left completes too.\<close>

lemma no_tools_second_run:
  assumes ok: "fst (create_size_subdirectories no_tools w) = Inr ()"
  shows "fs (snd (generate_pngs no_tools w)) = fs (snd (create_size_subdirectories no_tools w))"
    and "fst (generate_pngs no_tools (snd (generate_pngs no_tools w))) = Inr ()"
proof -
  let ?w1 = "snd (create_size_subdirectories no_tools w)"
  let ?w2 = "snd (generate_pngs no_tools w)"
  from convert_all_fail [OF no_tools_fail, of "print generating ?w1"]
  show f: "fs ?w2 = fs ?w1"
    by (simp add: generate_pngs_setup_ok [OF ok])
  have "create_size_subdirectories no_tools ?w2 = (Inr (), ?w2)"
    by (rule create_size_subdirectories_existing)
      (simp add: f create_size_subdirectories_dirs [OF ok])
  then have "fst (create_size_subdirectories no_tools ?w2) = Inr ()" by simp
  then show "fst (generate_pngs no_tools ?w2) = Inr ()"
    by (simp add: generate_pngs_setup_ok)
qed

section \<open>The attempts of a run\<close>

lemma primary_callI:
  "primary_call f t sz (inkscape_cmd (slash svg_dir f) sz (output_path t sz))"
  by (simp add: primary_call_def inkscape_cmd_def str_output_path)

lemma secondary_callI:
  "secondary_call f t sz (magick_cmd (slash svg_dir f) sz (output_path t sz))"
  by (simp add: secondary_call_def magick_cmd_def str_output_path)

lemma convert_pair_attempt:
  "\<exists>cs. calls (snd (convert_pair E f t sz w)) = calls w @ cs \<and> attempt (f, t, sz) cs"
  using convert_pair_calls [of E f t sz w] primary_callI [of f t sz] secondary_callI [of f t sz]
  unfolding attempt_def by auto

lemma concat_concat_all2:
  "list_all2 (\<lambda>x cs. \<exists>ds. cs = concat ds \<and> list_all2 Q (h x) ds) xs css \<Longrightarrow>
   \<exists>ds. concat css = concat ds \<and> list_all2 Q (concat (map h xs)) ds"
proof (induction xs css rule: list_all2_induct)
  case Nil
  then show ?case by simp
next
  case (Cons x xs cs css)
  then obtain d ds where d: "cs = concat d" "list_all2 Q (h x) d"
    and ds: "concat css = concat ds" "list_all2 Q (concat (map h xs)) ds"
    by blast
  then have "concat (cs # css) = concat (d @ ds)"
    and "list_all2 Q (concat (map h (x # xs))) (d @ ds)"
    by (simp_all add: list_all2_appendI)
  then show ?case by blast
qed

text \<open>
  The processes of a run are the attempts at the pairs of its sweep, in order: for each of
  them the primary command, followed or not by the secondary one.
\<close>

lemma run_attempts:
  assumes keep: "tools_keep_sources E" and ok: "fst (create_size_subdirectories E w) = Inr ()"
  shows "\<exists>css. new_calls w (snd (generate_pngs E w)) = concat css \<and>
           list_all2 attempt (attempted_pairs w) css"
proof -
  let ?W = "print generating (snd (create_size_subdirectories E w))"
  let ?I = "\<lambda>w'. \<forall>f. fs w' (slash svg_dir f) = fs ?W (slash svg_dir f)"
  let ?h = "\<lambda>(f, t). if exists_path w (slash svg_dir f) then map (\<lambda>sz. (f, t, sz)) widths else []"
  have ex: "exists_path ?W (slash svg_dir f) = exists_path w (slash svg_dir f)" for f
    using create_size_subdirectories_exists [of E w f] by (simp add: exists_path_def)
  have "?I (snd (convert_all E ?W)) \<and>
      (\<exists>css. calls (snd (convert_all E ?W)) = calls ?W @ concat css \<and>
         list_all2 (\<lambda>x cs. \<exists>ds. cs = concat ds \<and> list_all2 attempt (?h x) ds) svg_files css)"
  proof (rule convert_all_appends [OF keep, where I = ?I
        and Pp = "\<lambda>f t sz cs. attempt (f, t, sz) cs"])
    show "?I ?W" by simp
  next
    fix f t sz and w0 :: world
    assume "?I w0"
    with convert_pair_attempt [of E f t sz w0] convert_pair_source [OF keep, of f t sz w0]
    show "?I (snd (convert_pair E f t sz w0)) \<and>
        (\<exists>cs. calls (snd (convert_pair E f t sz w0)) = calls w0 @ cs \<and> attempt (f, t, sz) cs)"
      by simp
  next
    fix f t and w0 :: world
    assume "?I w0" "\<not> exists_path w0 (slash svg_dir f)"
    then have "\<not> exists_path w (slash svg_dir f)"
      using ex [of f] by (simp add: exists_path_def)
    then have "[] = concat [] \<and> list_all2 attempt (?h (f, t)) []" by simp
    then have "\<exists>ds. [] = concat ds \<and> list_all2 attempt (?h (f, t)) ds" by blast
    with \<open>?I w0\<close> show "?I (print (skipping f) w0) \<and>
        (\<exists>cs. calls (print (skipping f) w0) = calls w0 @ cs \<and>
           (\<exists>ds. cs = concat ds \<and> list_all2 attempt (?h (f, t)) ds))"
      by simp
  next
    fix f t css and w0 :: world
    assume "?I w0" "exists_path w0 (slash svg_dir f)"
      and l: "list_all2 (\<lambda>sz cs. attempt (f, t, sz) cs) widths css"
    then have "exists_path w (slash svg_dir f)"
      using ex [of f] by (simp add: exists_path_def)
    moreover from l have "list_all2 attempt (map (\<lambda>sz. (f, t, sz)) widths) css"
      by (simp add: list_all2_map1)
    ultimately show "\<exists>ds. concat css = concat ds \<and> list_all2 attempt (?h (f, t)) ds"
      by auto
  qed
  then obtain css where c: "calls (snd (convert_all E ?W)) = calls ?W @ concat css"
    and l: "list_all2 (\<lambda>x cs. \<exists>ds. cs = concat ds \<and> list_all2 attempt (?h x) ds) svg_files css"
    by blast
  have "new_calls w (snd (generate_pngs E w)) = new_calls ?W (snd (convert_all E ?W))"
    by (simp add: generate_pngs_new_calls ok)
  also have "\<dots> = concat css"
    using c by (simp add: new_calls_def)
  finally have "new_calls w (snd (generate_pngs E w)) = concat css" .
  with concat_concat_all2 [OF l] show ?thesis
    by (simp add: attempted_pairs_def)
qed

section \<open>Failing library calls\<close>

lemma print_io_raises:
  "fst (print_io X l w) = Inl e \<longleftrightarrow> print_error X w l = Some e"
  "fst (print_io X l w) = Inl e \<Longrightarrow> snd (print_io X l w) = w"
  by (auto simp: print_io_def split: option.splits)

lemma print_io_returns:
  "fst (print_io X l w) = Inr () \<Longrightarrow> snd (print_io X l w) = print l w"
  by (auto simp: print_io_def split: option.splits)

lemma exists_io_eq:
  "exists_io X p w =
     (case stat_error X w p of
        Some e \<Rightarrow> if ignore_error e then (Inr False, w) else (Inl e, w)
      | None \<Rightarrow> (Inr (exists_path w p), w))"
  by (simp add: exists_io_def stat_def exists_path_def ignore_error_def split: option.splits)

text \<open>What one iteration of the innermost loop does, by the tools and the prints.\<close>

lemma convert_pair_io_eq:
  fixes X E f t sz w
  defines "ink \<equiv> inkscape_cmd (slash svg_dir f) sz (output_path t sz)"
    and "mag \<equiv> magick_cmd (slash svg_dir f) sz (output_path t sz)"
  defines "p1 \<equiv> tool E (length (calls w)) ink (fs w)"
  defines "p2 \<equiv> tool E (Suc (length (calls w))) mag (snd p1)"
  defines "w1 \<equiv> w\<lparr>fs := snd p1, calls := calls w @ [ink]\<rparr>"
    and "w2 \<equiv> w\<lparr>fs := snd p2, calls := calls w @ [ink, mag]\<rparr>"
  shows "convert_pair_io X E f t sz w =
     (if exit_ok (fst p1) \<and> print_error X w1 (''Created '' @ name (output_path t sz)) = None
      then (Inr (), print (''Created '' @ name (output_path t sz)) w1)
      else if exit_ok (fst p2) \<and>
              print_error X w2 (''Created '' @ name (output_path t sz) @ '' (with ImageMagick)'') = None
      then (Inr (), print (''Created '' @ name (output_path t sz) @ '' (with ImageMagick)'') w2)
      else print_io X (could_not_convert f sz) w2)"
proof -
  obtain r1 f1 where t1: "tool E (length (calls w)) ink (fs w) = (r1, f1)"
    by (cases "tool E (length (calls w)) ink (fs w)")
  obtain r2 f2 where t2: "tool E (Suc (length (calls w))) mag f1 = (r2, f2)"
    by (cases "tool E (Suc (length (calls w))) mag f1")
  show ?thesis
    unfolding w1_def w2_def p2_def p1_def
    using t1 t2 unfolding ink_def mag_def
    by (cases r1; cases r2)
      (auto simp add: convert_pair_io_def try_except_def try_inkscape_io_def try_magick_io_def
        subprocess_run_def print_io_def exit_ok_def Let_def split: option.splits)
qed

text \<open>An exception that leaves a loop left one of its iterations, in the world the loop ends in.\<close>

lemma for_each_raises:
  assumes "fst (for_each body xs w) = Inl e"
    and "\<And>x w0. x \<in> set xs \<Longrightarrow> fst (body x w0) = Inl e \<Longrightarrow> Q (snd (body x w0))"
  shows "Q (snd (for_each body xs w))"
  using assms
proof (induction xs arbitrary: w)
  case Nil
  then show ?case by simp
next
  case (Cons x xs)
  obtain r w1 where b: "body x w = (r, w1)" by (cases "body x w")
  show ?case
  proof (cases r)
    case (Inl e')
    with b Cons.prems(1) have "fst (body x w) = Inl e" by simp
    then have "Q (snd (body x w))" by (rule Cons.prems(2) [rotated]) simp
    with b Inl show ?thesis by simp
  next
    case (Inr u)
    with b Cons.prems(1) have "fst (for_each body xs w1) = Inl e" by simp
    then have "Q (snd (for_each body xs w1))"
      by (rule Cons.IH) (simp add: Cons.prems(2))
    with b Inr show ?thesis by simp
  qed
qed

text \<open>A loop that returns normally has run every iteration, each returning normally.\<close>

lemma for_each_returns:
  fixes lg :: "world \<Rightarrow> 'b list"
  assumes "fst (for_each body xs w) = Inr ()"
    and "\<And>x w0. x \<in> set xs \<Longrightarrow> fst (body x w0) = Inr () \<Longrightarrow>
           \<exists>cs. lg (snd (body x w0)) = lg w0 @ cs \<and> P x cs"
  shows "\<exists>css. lg (snd (for_each body xs w)) = lg w @ concat css \<and> list_all2 P xs css"
  using assms
proof (induction xs arbitrary: w)
  case Nil
  then show ?case by simp
next
  case (Cons x xs)
  obtain r w1 where b: "body x w = (r, w1)" by (cases "body x w")
  with Cons.prems(1) have r: "r = Inr ()" by (cases r) auto
  with b Cons.prems(1) have rest: "fst (for_each body xs w1) = Inr ()" by simp
  from Cons.prems(2) [of x w] b r obtain cs where l1: "lg w1 = lg w @ cs" and p: "P x cs"
    by auto
  have "\<exists>css. lg (snd (for_each body xs w1)) = lg w1 @ concat css \<and> list_all2 P xs css"
    by (rule Cons.IH [OF rest]) (simp add: Cons.prems(2))
  then obtain css where l2: "lg (snd (for_each body xs w1)) = lg w1 @ concat css"
    and ps: "list_all2 P xs css"
    by auto
  have "lg (snd (for_each body xs w1)) = lg w @ concat (cs # css)"
    using l1 l2 by simp
  moreover have "list_all2 P (x # xs) (cs # css)" using p ps by simp
  ultimately have "\<exists>css'. lg (snd (for_each body xs w1)) = lg w @ concat css' \<and>
      list_all2 P (x # xs) css'" by blast
  with b r show ?case by simp
qed

lemma concat_single_lines:
  "list_all2 (\<lambda>x ls. \<exists>l. ls = [l] \<and> P x l) xs lss \<Longrightarrow> list_all2 P xs (concat lss)"
  by (induction xs lss rule: list_all2_induct) auto

text \<open>
  One iteration of the innermost loop: the only exception that leaves it is one raised by
  the print of the failure notice; when it returns it has printed one line about its pair.
\<close>

lemma convert_pair_io_raises:
  assumes "fst (convert_pair_io X E f t sz w) = Inl e"
  shows "print_error X (snd (convert_pair_io X E f t sz w)) (could_not_convert f sz) = Some e"
  using assms unfolding convert_pair_io_eq
  by (auto simp: print_io_def split: if_splits option.splits)

lemma convert_pair_io_returns:
  assumes "fst (convert_pair_io X E f t sz w) = Inr ()"
  shows "\<exists>l. stdout (snd (convert_pair_io X E f t sz w)) = stdout w @ [l] \<and> pair_line f t sz l"
  using assms unfolding convert_pair_io_eq
  by (auto simp: print_io_def pair_line_def split: if_splits option.splits)

lemma could_not_convert_unguarded:
  "(f, t) \<in> set svg_files \<Longrightarrow> sz \<in> set widths \<Longrightarrow> unguarded_line (could_not_convert f sz)"
  unfolding unguarded_line_def by blast

lemma skipping_unguarded: "(f, t) \<in> set svg_files \<Longrightarrow> unguarded_line (skipping f)"
  unfolding unguarded_line_def by blast

lemma convert_source_io_raises:
  assumes x: "(f, t) \<in> set svg_files"
    and e: "fst (convert_source_io X E (f, t) w) = Inl e"
  shows "raised_unguarded X (snd (convert_source_io X E (f, t) w)) e"
proof (cases "exists_io X (slash svg_dir f) w")
  case (Pair r w1)
  then have w1: "w1 = w"
    by (auto simp: exists_io_eq split: option.splits if_splits)
  show ?thesis
  proof (cases r)
    case (Inl e')
    with Pair e have "e' = e" by (simp add: convert_source_io_def)
    with Pair Inl have "stat_error X w (slash svg_dir f) = Some e \<and> \<not> ignore_error e"
      by (auto simp: exists_io_eq split: option.splits if_splits)
    with x have "raised_unguarded X w e" unfolding raised_unguarded_def by blast
    with Pair Inl w1 show ?thesis by (simp add: convert_source_io_def)
  next
    case (Inr found)
    show ?thesis
    proof (cases found)
      case False
      with Pair Inr w1 have c: "convert_source_io X E (f, t) w = print_io X (skipping f) w"
        by (simp add: convert_source_io_def)
      with e have "print_error X w (skipping f) = Some e" by (simp add: print_io_raises)
      with skipping_unguarded [OF x] have "raised_unguarded X w e"
        unfolding raised_unguarded_def by blast
      with c e show ?thesis by (simp add: print_io_raises)
    next
      case True
      with Pair Inr w1
      have c: "convert_source_io X E (f, t) w = for_each (convert_pair_io X E f t) widths w"
        by (simp add: convert_source_io_def for_each_size_flat)
      have "raised_unguarded X (snd (for_each (convert_pair_io X E f t) widths w)) e"
      proof (rule for_each_raises)
        show "fst (for_each (convert_pair_io X E f t) widths w) = Inl e" using c e by simp
      next
        fix sz w0
        assume sz: "sz \<in> set widths" and r: "fst (convert_pair_io X E f t sz w0) = Inl e"
        from convert_pair_io_raises [OF r] could_not_convert_unguarded [OF x sz]
        show "raised_unguarded X (snd (convert_pair_io X E f t sz w0)) e"
          unfolding raised_unguarded_def by blast
      qed
      with c show ?thesis by simp
    qed
  qed
qed

lemma convert_source_io_returns:
  assumes ok: "fst (convert_source_io X E (f, t) w) = Inr ()"
  shows "\<exists>ls. stdout (snd (convert_source_io X E (f, t) w)) = stdout w @ ls \<and> source_lines (f, t) ls"
proof (cases "exists_io X (slash svg_dir f) w")
  case (Pair r w1)
  then have w1: "w1 = w"
    by (auto simp: exists_io_eq split: option.splits if_splits)
  show ?thesis
  proof (cases r)
    case (Inl e')
    with Pair ok show ?thesis by (simp add: convert_source_io_def)
  next
    case (Inr found)
    show ?thesis
    proof (cases found)
      case False
      with Pair Inr w1 have c: "convert_source_io X E (f, t) w = print_io X (skipping f) w"
        by (simp add: convert_source_io_def)
      with ok print_io_returns [of X "skipping f" w] show ?thesis
        by (simp add: source_lines_def)
    next
      case True
      with Pair Inr w1
      have c: "convert_source_io X E (f, t) w = for_each (convert_pair_io X E f t) widths w"
        by (simp add: convert_source_io_def for_each_size_flat)
      have "\<exists>lss. stdout (snd (for_each (convert_pair_io X E f t) widths w)) = stdout w @ concat lss \<and>
          list_all2 (\<lambda>sz ls. \<exists>l. ls = [l] \<and> pair_line f t sz l) widths lss"
      proof (rule for_each_returns)
        show "fst (for_each (convert_pair_io X E f t) widths w) = Inr ()" using c ok by simp
      next
        fix sz w0
        assume "fst (convert_pair_io X E f t sz w0) = Inr ()"
        from convert_pair_io_returns [OF this]
        show "\<exists>ls. stdout (snd (convert_pair_io X E f t sz w0)) = stdout w0 @ ls \<and>
            (\<exists>l. ls = [l] \<and> pair_line f t sz l)"
          by auto
      qed
      then obtain lss where "stdout (snd (for_each (convert_pair_io X E f t) widths w)) = stdout w @ concat lss"
        and "list_all2 (pair_line f t) widths (concat lss)"
        by (auto dest: concat_single_lines)
      with c show ?thesis by (auto simp: source_lines_def)
    qed
  qed
qed

lemma convert_all_io_raises:
  assumes "fst (convert_all_io X E w) = Inl e"
  shows "raised_unguarded X (snd (convert_all_io X E w)) e"
  unfolding convert_all_io_def
proof (rule for_each_raises)
  show "fst (for_each (convert_source_io X E) svg_files w) = Inl e"
    using assms by (simp add: convert_all_io_def)
next
  fix x w0
  assume "x \<in> set svg_files" "fst (convert_source_io X E x w0) = Inl e"
  then show "raised_unguarded X (snd (convert_source_io X E x w0)) e"
    using convert_source_io_raises [of "fst x" "snd x" X E w0 e] by simp
qed

lemma convert_all_io_returns:
  assumes "fst (convert_all_io X E w) = Inr ()"
  shows "\<exists>lss. stdout (snd (convert_all_io X E w)) = stdout w @ concat lss \<and>
           list_all2 source_lines svg_files lss"
  unfolding convert_all_io_def
proof (rule for_each_returns)
  show "fst (for_each (convert_source_io X E) svg_files w) = Inr ()"
    using assms by (simp add: convert_all_io_def)
next
  fix x w0
  assume "fst (convert_source_io X E x w0) = Inr ()"
  then show "\<exists>ls. stdout (snd (convert_source_io X E x w0)) = stdout w0 @ ls \<and> source_lines x ls"
    using convert_source_io_returns [of X E "fst x" "snd x" w0] by simp
qed

lemma generate_pngs_io_setup_failed:
  "fst (create_size_subdirectories E w) = Inl e \<Longrightarrow>
     generate_pngs_io X E w = (Inl e, snd (create_size_subdirectories E w))"
  by (cases "create_size_subdirectories E w") (simp add: generate_pngs_io_def)

lemma generate_pngs_io_setup_ok:
  "fst (create_size_subdirectories E w) = Inr () \<Longrightarrow>
     generate_pngs_io X E w =
       (case print_io X generating (snd (create_size_subdirectories E w)) of
          (Inl e, w2) \<Rightarrow> (Inl e, w2)
        | (Inr u, w2) \<Rightarrow>
            (case convert_all_io X E w2 of
               (Inl e, w3) \<Rightarrow> (Inl e, w3)
             | (Inr u, w3) \<Rightarrow> print_io X closing w3))"
  by (cases "create_size_subdirectories E w") (simp add: generate_pngs_io_def)

lemma generate_pngs_io_raises:
  assumes ok: "fst (create_size_subdirectories E w) = Inr ()"
    and e: "fst (generate_pngs_io X E w) = Inl e"
  shows "raised_unguarded X (snd (generate_pngs_io X E w)) e"
proof -
  let ?w1 = "snd (create_size_subdirectories E w)"
  have g: "unguarded_line generating" and c: "unguarded_line closing"
    by (simp_all add: unguarded_line_def)
  show ?thesis
  proof (cases "print_error X ?w1 generating")
    case (Some e')
    with e have "e' = e" by (simp add: generate_pngs_io_setup_ok [OF ok] print_io_def)
    with Some g have "raised_unguarded X ?w1 e" unfolding raised_unguarded_def by blast
    with Some show ?thesis by (simp add: generate_pngs_io_setup_ok [OF ok] print_io_def)
  next
    case None
    let ?w2 = "print generating ?w1"
    obtain r w3 where a: "convert_all_io X E ?w2 = (r, w3)" by (cases "convert_all_io X E ?w2")
    show ?thesis
    proof (cases r)
      case (Inl e')
      with a None e have "e' = e" by (simp add: generate_pngs_io_setup_ok [OF ok] print_io_def)
      with a Inl convert_all_io_raises [of X E ?w2 e] have "raised_unguarded X w3 e" by simp
      with a Inl None show ?thesis by (simp add: generate_pngs_io_setup_ok [OF ok] print_io_def)
    next
      case (Inr u)
      with a None have run: "generate_pngs_io X E w = print_io X closing w3"
        by (simp add: generate_pngs_io_setup_ok [OF ok] print_io_def)
      with e have "print_error X w3 closing = Some e" by (simp add: print_io_raises)
      with c have "raised_unguarded X w3 e" unfolding raised_unguarded_def by blast
      with run e show ?thesis by (simp add: print_io_raises)
    qed
  qed
qed

lemma generate_pngs_io_returns:
  assumes r: "fst (generate_pngs_io X E w) = Inr ()"
  shows "fst (create_size_subdirectories E w) = Inr () \<and>
         complete_report (new_stdout w (snd (generate_pngs_io X E w)))"
proof -
  let ?w1 = "snd (create_size_subdirectories E w)"
  have ok: "fst (create_size_subdirectories E w) = Inr ()"
  proof (cases "fst (create_size_subdirectories E w)")
    case (Inl e)
    with r generate_pngs_io_setup_failed [of E w e X] show ?thesis by simp
  next
    case (Inr u)
    then show ?thesis by simp
  qed
  from r have p1: "print_error X ?w1 generating = None"
    by (cases "print_error X ?w1 generating")
      (simp_all add: generate_pngs_io_setup_ok [OF ok] print_io_def)
  let ?w2 = "print generating ?w1"
  obtain r3 w3 where a: "convert_all_io X E ?w2 = (r3, w3)" by (cases "convert_all_io X E ?w2")
  with r p1 have r3: "r3 = Inr ()"
    by (cases r3) (simp_all add: generate_pngs_io_setup_ok [OF ok] print_io_def)
  with a p1 have run: "generate_pngs_io X E w = print_io X closing w3"
    by (simp add: generate_pngs_io_setup_ok [OF ok] print_io_def)
  with r have fin: "snd (generate_pngs_io X E w) = print closing w3"
    by (simp add: print_io_returns)
  from convert_all_io_returns [of X E ?w2] a r3
  obtain lss where "stdout w3 = stdout ?w2 @ concat lss" and l: "list_all2 source_lines svg_files lss"
    by auto
  then have "new_stdout w (snd (generate_pngs_io X E w)) = generating # concat lss @ [closing]"
    by (simp add: fin new_stdout_def)
  with l ok show ?thesis unfolding complete_report_def by blast
qed

text \<open>
  When no library call fails the script with failing library calls is the script above.
\<close>

lemma print_io_quiet: "no_fault X \<Longrightarrow> print_io X l w = (Inr (), print l w)"
  by (simp add: print_io_def no_fault_def)

lemma exists_io_quiet: "no_fault X \<Longrightarrow> exists_io X p w = (Inr (exists_path w p), w)"
  by (simp add: exists_io_eq no_fault_def)

lemma convert_pair_io_no_fault:
  assumes "no_fault X"
  shows "convert_pair_io X E f t = convert_pair E f t"
  using assms
  by (intro ext) (simp add: convert_pair_io_eq convert_pair_eq print_io_quiet no_fault_def)

lemma convert_source_io_no_fault:
  assumes "no_fault X"
  shows "convert_source_io X E = convert_source E"
  by (intro ext)
    (simp add: convert_source_io_def convert_source_def exists_io_quiet [OF assms]
      print_io_quiet [OF assms] convert_pair_io_no_fault [OF assms] split: prod.splits)

lemma generate_pngs_io_no_fault:
  assumes "no_fault X"
  shows "generate_pngs_io X E w = generate_pngs E w"
proof (cases "fst (create_size_subdirectories E w)")
  case (Inl e)
  then show ?thesis by (simp add: generate_pngs_io_setup_failed generate_pngs_setup_failed)
next
  case (Inr u)
  then have ok: "fst (create_size_subdirectories E w) = Inr ()" by simp
  have a: "convert_all_io X E = convert_all E"
    by (simp add: convert_all_io_def convert_all_def convert_source_io_no_fault [OF assms])
  obtain r w3 where c: "convert_all E (print generating (snd (create_size_subdirectories E w))) = (r, w3)"
    by (cases "convert_all E (print generating (snd (create_size_subdirectories E w)))")
  with convert_all_ok [of E "print generating (snd (create_size_subdirectories E w))"]
  have "r = Inr ()" by simp
  with c show ?thesis
    by (simp add: generate_pngs_io_setup_ok [OF ok] generate_pngs_setup_ok [OF ok]
        print_io_quiet [OF assms] a)
qed

lemma quiet_no_fault: "no_fault quiet"
  by (simp add: no_fault_def quiet_def)

lemma setup_read_only_icon_only:
  "fst (create_size_subdirectories read_only icon_only) = Inl PermissionError"
  unfolding create_size_subdirectories_flat widths_eq
  by (simp add: mkdir_def size_dir_def png_dir_def svg_dir_def slash_def read_only_def icon_only_def
      str_int_def digit_char_def make_dirs_def)

lemma run_unreadable_sources:
  "generate_pngs_io unreadable_sources no_tools icon_only =
     (Inl PermissionError, print generating (snd (create_size_subdirectories no_tools icon_only)))"
  by (simp add: generate_pngs_io_setup_ok [OF setup_no_tools_icon_only] print_io_def
      convert_all_io_def svg_files_def convert_source_io_def exists_io_eq unreadable_sources_def
      ignore_error_def)

lemma run_broken_pipe:
  "generate_pngs_io broken_pipe no_tools icon_only =
     (Inl OSError, snd (create_size_subdirectories no_tools icon_only))"
  by (simp add: generate_pngs_io_setup_ok [OF setup_no_tools_icon_only] print_io_def
      broken_pipe_def)

lemma pair_broken_pipe:
  "convert_pair_io broken_pipe no_tools ''synced-sports-icon.svg'' ''icon'' 32 icon_only =
     (Inl OSError,
      icon_only\<lparr>calls :=
        [inkscape_cmd (slash svg_dir ''synced-sports-icon.svg'') 32 (output_path ''icon'' 32),
         magick_cmd (slash svg_dir ''synced-sports-icon.svg'') 32 (output_path ''icon'' 32)]\<rparr>)"
  by (simp add: convert_pair_io_eq no_tools_def exit_ok_def broken_pipe_def print_io_def
      icon_only_def)

lemma icon_only_fields:
  "stdout icon_only = []" "calls icon_only = []"
  "fs icon_only (slash svg_dir f) = (if f = ''synced-sports-icon.svg'' then Some File else None)"
  by (simp_all add: icon_only_def slash_def)

lemma convert_pair_io_no_tools:
  "convert_pair_io X no_tools f t sz w =
     print_io X (could_not_convert f sz)
       (w\<lparr>calls := calls w @ [inkscape_cmd (slash svg_dir f) sz (output_path t sz),
                                 magick_cmd (slash svg_dir f) sz (output_path t sz)]\<rparr>)"
  by (simp add: convert_pair_io_eq no_tools_def exit_ok_def)

text \<open>
  Without tools and with the icon as the only source, the run prints the opening line, two
  skip notices, six failure notices, four skip notices and the closing line. A pipe that
  breaks at the second line breaks at a skip notice, at the fourth at a failure notice, at
  the fourteenth at the closing line.
\<close>

lemma run_pipe_breaks_at_1:
  "fst (generate_pngs_io (pipe_breaks_at 1) no_tools icon_only) = Inl OSError"
  "new_stdout icon_only (snd (generate_pngs_io (pipe_breaks_at 1) no_tools icon_only)) =
     [generating]"
  by (simp_all add: generate_pngs_io_setup_ok [OF setup_no_tools_icon_only] print_io_def
      convert_all_io_def svg_files_def convert_source_io_def exists_io_eq pipe_breaks_at_def
      exists_path_def create_size_subdirectories_source new_stdout_def icon_only_fields)

lemma run_pipe_breaks_at_3:
  "fst (generate_pngs_io (pipe_breaks_at 3) no_tools icon_only) = Inl OSError"
  "new_stdout icon_only (snd (generate_pngs_io (pipe_breaks_at 3) no_tools icon_only)) =
     [generating, skipping ''synced-sports-primary.svg'', skipping ''synced-sports-horizontal.svg'']"
  "new_calls icon_only (snd (generate_pngs_io (pipe_breaks_at 3) no_tools icon_only)) =
     [inkscape_cmd (slash svg_dir ''synced-sports-icon.svg'') 32 (output_path ''icon'' 32),
      magick_cmd (slash svg_dir ''synced-sports-icon.svg'') 32 (output_path ''icon'' 32)]"
  by (simp_all add: generate_pngs_io_setup_ok [OF setup_no_tools_icon_only] print_io_def
      convert_all_io_def svg_files_def convert_source_io_def exists_io_eq pipe_breaks_at_def
      exists_path_def create_size_subdirectories_source new_stdout_def new_calls_def
      for_each_size_flat widths_eq convert_pair_io_no_tools icon_only_fields)

lemma run_pipe_breaks_at_13:
  "fst (generate_pngs_io (pipe_breaks_at 13) no_tools icon_only) = Inl OSError"
  "length (new_stdout icon_only (snd (generate_pngs_io (pipe_breaks_at 13) no_tools icon_only))) = 13"
  "last (stdout (snd (generate_pngs_io (pipe_breaks_at 13) no_tools icon_only))) =
     skipping ''synced-sports-wordmark.svg''"
  by (simp_all add: generate_pngs_io_setup_ok [OF setup_no_tools_icon_only] print_io_def
      convert_all_io_def svg_files_def convert_source_io_def exists_io_eq pipe_breaks_at_def
      exists_path_def create_size_subdirectories_source new_stdout_def for_each_size_flat widths_eq
      convert_pair_io_no_tools icon_only_fields)

section \<open>The claims\<close>



text \<open>
  C3. When one of the six directory creations of the set-up phase raises, the run ends in
  that exception and nothing else has happened. When the set-up succeeds and the run ends
  in an exception all the same, that exception is one raised, in the world the run ended
  in, by a call outside the two \<^verbatim>\<open>try\<close> blocks: the existence check of a registered source
  (line 37) or the print of the opening line, a skip notice, a failure notice or the closing
  line (lines 32, 38, 74 and 76). No result of a tool and no failure to print a \<^verbatim>\<open>Created\<close>
  line ends the run: the only exception that leaves an iteration of the innermost loop is
  the one raised by the print of its failure notice, and an iteration that returns has
  printed exactly one line about its pair. So when none of the calls outside the \<^verbatim>\<open>try\<close>
  blocks raises, the run returns normally whatever the tools do; and a run that returns
  normally has printed the opening line, then for every registry entry in turn the skip
  notice or one line for each of the six widths, then the closing line: the sweep went
  through every pair, however many failed.
\<close>

theorem fatal_errors_of_a_run:
  fixes X E w e f t sz w'
  defines "mkdirs \<equiv> for_each (\<lambda>sz. mkdir E (size_dir sz)) [32, 64, 128, 256, 512, 1024] w"
    and "run \<equiv> generate_pngs_io X E w"
    and "pair \<equiv> convert_pair_io X E f t sz w'"
  shows "(fst mkdirs = Inl e \<longrightarrow> run = (Inl e, snd mkdirs)) \<and>
         (fst mkdirs = Inr () \<and> fst run = Inl e \<longrightarrow> raised_unguarded X (snd run) e) \<and>
         (fst mkdirs = Inr () \<and> (\<forall>w0 e0. \<not> raised_unguarded X w0 e0) \<longrightarrow> fst run = Inr ()) \<and>
         (fst run = Inr () \<longrightarrow>
            fst mkdirs = Inr () \<and> complete_report (new_stdout w (snd run))) \<and>
         (fst pair = Inl e \<longrightarrow> print_error X (snd pair) (could_not_convert f sz) = Some e) \<and>
         (fst pair = Inr () \<longrightarrow> (\<exists>l. new_stdout w' (snd pair) = [l] \<and> pair_line f t sz l))"
proof -
  have flat: "mkdirs = create_size_subdirectories E w"
    by (simp add: mkdirs_def create_size_subdirectories_flat widths_eq)
  have a: "fst mkdirs = Inl e \<longrightarrow> run = (Inl e, snd mkdirs)"
    unfolding flat run_def by (simp add: generate_pngs_io_setup_failed)
  have b: "fst mkdirs = Inr () \<and> fst run = Inl e \<longrightarrow> raised_unguarded X (snd run) e"
    unfolding flat run_def by (simp add: generate_pngs_io_raises)
  have c: "fst mkdirs = Inr () \<and> (\<forall>w0 e0. \<not> raised_unguarded X w0 e0) \<longrightarrow> fst run = Inr ()"
  proof (cases "fst run")
    case (Inl e1)
    with generate_pngs_io_raises [of E w X e1] show ?thesis
      unfolding flat run_def by auto
  next
    case (Inr u)
    then show ?thesis by simp
  qed
  have d: "fst run = Inr () \<longrightarrow> fst mkdirs = Inr () \<and> complete_report (new_stdout w (snd run))"
    unfolding flat run_def using generate_pngs_io_returns [of X E w] by simp
  have e: "fst pair = Inl e \<longrightarrow> print_error X (snd pair) (could_not_convert f sz) = Some e"
    unfolding pair_def by (simp add: convert_pair_io_raises)
  have f: "fst pair = Inr () \<longrightarrow> (\<exists>l. new_stdout w' (snd pair) = [l] \<and> pair_line f t sz l)"
    unfolding pair_def using convert_pair_io_returns [of X E f t sz w']
    by (auto simp: new_stdout_def)
  from a b c d e f show ?thesis by blast
qed

theorem fatal_errors_of_a_run_witness:
  "fst (for_each (\<lambda>sz. mkdir read_only (size_dir sz)) [32, 64, 128, 256, 512, 1024] icon_only) =
     Inl PermissionError \<and>
   fst (generate_pngs_io quiet read_only icon_only) = Inl PermissionError \<and>
   fst (for_each (\<lambda>sz. mkdir no_tools (size_dir sz)) [32, 64, 128, 256, 512, 1024] icon_only) =
     Inr () \<and>
   fst (generate_pngs_io unreadable_sources no_tools icon_only) = Inl PermissionError \<and>
   raised_unguarded unreadable_sources
     (snd (generate_pngs_io unreadable_sources no_tools icon_only)) PermissionError \<and>
   fst (generate_pngs_io (pipe_breaks_at 1) no_tools icon_only) = Inl OSError \<and>
   new_stdout icon_only (snd (generate_pngs_io (pipe_breaks_at 1) no_tools icon_only)) =
     [generating] \<and>
   raised_unguarded (pipe_breaks_at 1)
     (snd (generate_pngs_io (pipe_breaks_at 1) no_tools icon_only)) OSError \<and>
   fst (generate_pngs_io (pipe_breaks_at 3) no_tools icon_only) = Inl OSError \<and>
   new_stdout icon_only (snd (generate_pngs_io (pipe_breaks_at 3) no_tools icon_only)) =
     [generating, skipping ''synced-sports-primary.svg'', skipping ''synced-sports-horizontal.svg''] \<and>
   new_calls icon_only (snd (generate_pngs_io (pipe_breaks_at 3) no_tools icon_only)) =
     [inkscape_cmd (slash svg_dir ''synced-sports-icon.svg'') 32 (output_path ''icon'' 32),
      magick_cmd (slash svg_dir ''synced-sports-icon.svg'') 32 (output_path ''icon'' 32)] \<and>
   raised_unguarded (pipe_breaks_at 3)
     (snd (generate_pngs_io (pipe_breaks_at 3) no_tools icon_only)) OSError \<and>
   fst (generate_pngs_io (pipe_breaks_at 13) no_tools icon_only) = Inl OSError \<and>
   length (new_stdout icon_only (snd (generate_pngs_io (pipe_breaks_at 13) no_tools icon_only))) =
     13 \<and>
   raised_unguarded (pipe_breaks_at 13)
     (snd (generate_pngs_io (pipe_breaks_at 13) no_tools icon_only)) OSError \<and>
   (\<forall>w0 e0. \<not> raised_unguarded quiet w0 e0) \<and>
   fst (generate_pngs_io quiet no_tools icon_only) = Inr () \<and>
   complete_report (new_stdout icon_only (snd (generate_pngs_io quiet no_tools icon_only))) \<and>
   fst (convert_pair_io broken_pipe no_tools ''synced-sports-icon.svg'' ''icon'' 32 icon_only) =
     Inl OSError \<and>
   print_error broken_pipe
     (snd (convert_pair_io broken_pipe no_tools ''synced-sports-icon.svg'' ''icon'' 32 icon_only))
     (could_not_convert ''synced-sports-icon.svg'' 32) = Some OSError \<and>
   fst (convert_pair_io quiet magick_only ''synced-sports-icon.svg'' ''icon'' 32 icon_only) = Inr () \<and>
   new_stdout icon_only
     (snd (convert_pair_io quiet magick_only ''synced-sports-icon.svg'' ''icon'' 32 icon_only)) =
     [''Created synced-sports-icon-32.png (with ImageMagick)''] \<and>
   pair_line ''synced-sports-icon.svg'' ''icon'' 32
     ''Created synced-sports-icon-32.png (with ImageMagick)''"
proof -
  let ?bad = "for_each (\<lambda>sz. mkdir read_only (size_dir sz)) [32, 64, 128, 256, 512, 1024] icon_only"
  let ?ok = "for_each (\<lambda>sz. mkdir no_tools (size_dir sz)) [32, 64, 128, 256, 512, 1024] icon_only"
  have bad: "fst ?bad = Inl PermissionError"
    using setup_read_only_icon_only by (simp only: create_size_subdirectories_flat widths_eq)
  have ok: "fst ?ok = Inr ()"
    using setup_no_tools_icon_only by (simp only: create_size_subdirectories_flat widths_eq)
  have q: "\<forall>w0 e0. \<not> raised_unguarded quiet w0 e0"
    by (simp add: raised_unguarded_def quiet_def)
  have u: "fst (generate_pngs_io unreadable_sources no_tools icon_only) = Inl PermissionError"
    by (simp add: run_unreadable_sources)
  have b: "fst (convert_pair_io broken_pipe no_tools ''synced-sports-icon.svg'' ''icon'' 32 icon_only) =
      Inl OSError"
    by (simp add: pair_broken_pipe)
  have m: "convert_pair_io quiet magick_only ''synced-sports-icon.svg'' ''icon'' 32 icon_only =
      (Inr (), print ''Created synced-sports-icon-32.png (with ImageMagick)''
         (icon_only\<lparr>calls :=
            [inkscape_cmd (slash svg_dir ''synced-sports-icon.svg'') 32 (output_path ''icon'' 32),
             magick_cmd (slash svg_dir ''synced-sports-icon.svg'') 32 (output_path ''icon'' 32)]\<rparr>))"
    by (simp add: convert_pair_io_eq magick_only_def exit_ok_def quiet_def icon_only_def
        inkscape_cmd_def magick_cmd_def str_int_def digit_char_def)
  have c1: "generate_pngs_io quiet read_only icon_only = (Inl PermissionError, snd ?bad)"
    using fatal_errors_of_a_run [where X = quiet and E = read_only and w = icon_only
        and e = PermissionError] bad
    by blast
  have c2: "raised_unguarded unreadable_sources
       (snd (generate_pngs_io unreadable_sources no_tools icon_only)) PermissionError"
    using fatal_errors_of_a_run [where X = unreadable_sources and E = no_tools and w = icon_only
        and e = PermissionError] ok u
    by blast
  have p1: "raised_unguarded (pipe_breaks_at 1)
       (snd (generate_pngs_io (pipe_breaks_at 1) no_tools icon_only)) OSError"
    using fatal_errors_of_a_run [where X = "pipe_breaks_at 1" and E = no_tools and w = icon_only
        and e = OSError] ok run_pipe_breaks_at_1(1)
    by blast
  have p3: "raised_unguarded (pipe_breaks_at 3)
       (snd (generate_pngs_io (pipe_breaks_at 3) no_tools icon_only)) OSError"
    using fatal_errors_of_a_run [where X = "pipe_breaks_at 3" and E = no_tools and w = icon_only
        and e = OSError] ok run_pipe_breaks_at_3(1)
    by blast
  have p13: "raised_unguarded (pipe_breaks_at 13)
       (snd (generate_pngs_io (pipe_breaks_at 13) no_tools icon_only)) OSError"
    using fatal_errors_of_a_run [where X = "pipe_breaks_at 13" and E = no_tools and w = icon_only
        and e = OSError] ok run_pipe_breaks_at_13(1)
    by blast
  have c3: "fst (generate_pngs_io quiet no_tools icon_only) = Inr ()"
    using fatal_errors_of_a_run [where X = quiet and E = no_tools and w = icon_only] ok q
    by blast
  have c4: "complete_report (new_stdout icon_only (snd (generate_pngs_io quiet no_tools icon_only)))"
    using fatal_errors_of_a_run [where X = quiet and E = no_tools and w = icon_only] c3
    by blast
  have c5: "print_error broken_pipe
       (snd (convert_pair_io broken_pipe no_tools ''synced-sports-icon.svg'' ''icon'' 32 icon_only))
       (could_not_convert ''synced-sports-icon.svg'' 32) = Some OSError"
    using fatal_errors_of_a_run [where X = broken_pipe and E = no_tools and e = OSError
        and f = "''synced-sports-icon.svg''" and t = "''icon''" and sz = 32 and w' = icon_only] b
    by blast
  have c6: "\<exists>l. new_stdout icon_only
       (snd (convert_pair_io quiet magick_only ''synced-sports-icon.svg'' ''icon'' 32 icon_only)) = [l] \<and>
       pair_line ''synced-sports-icon.svg'' ''icon'' 32 l"
    using fatal_errors_of_a_run [where X = quiet and E = magick_only
        and f = "''synced-sports-icon.svg''" and t = "''icon''" and sz = 32 and w' = icon_only] m
    by simp
  have l: "new_stdout icon_only
       (snd (convert_pair_io quiet magick_only ''synced-sports-icon.svg'' ''icon'' 32 icon_only)) =
     [''Created synced-sports-icon-32.png (with ImageMagick)'']"
    unfolding m by (simp add: new_stdout_def icon_only_def)
  have c6': "pair_line ''synced-sports-icon.svg'' ''icon'' 32
       ''Created synced-sports-icon-32.png (with ImageMagick)''"
    using c6 unfolding l by simp
  have c1': "fst (generate_pngs_io quiet read_only icon_only) = Inl PermissionError"
    by (simp add: c1)
  have m': "fst (convert_pair_io quiet magick_only ''synced-sports-icon.svg'' ''icon'' 32 icon_only) = Inr ()"
    by (simp add: m)
  from bad c1' ok u c2 run_pipe_breaks_at_1 p1 run_pipe_breaks_at_3 p3
    run_pipe_breaks_at_13(1,2) p13 q c3 c4 b c5 m' l c6'
  show ?thesis by blast
qed

text \<open>
  Such runs exist: here the set-up phase succeeds and the run ends in an uncaught exception,
  with a source directory that may not be searched in the \<^verbatim>\<open>PermissionError\<close> of the first
  existence check, after the opening line, and with a standard output that cannot be
  written in the \<^verbatim>\<open>OSError\<close> of the first print.
\<close>

theorem fatal_after_setup_counterexample:
  "fst (for_each (\<lambda>sz. mkdir no_tools (size_dir sz)) [32, 64, 128, 256, 512, 1024] icon_only) =
     Inr () \<and>
   generate_pngs_io unreadable_sources no_tools icon_only =
     (Inl PermissionError,
      print generating
        (snd (for_each (\<lambda>sz. mkdir no_tools (size_dir sz)) [32, 64, 128, 256, 512, 1024] icon_only))) \<and>
   generate_pngs_io broken_pipe no_tools icon_only =
     (Inl OSError,
      snd (for_each (\<lambda>sz. mkdir no_tools (size_dir sz)) [32, 64, 128, 256, 512, 1024] icon_only))"
proof -
  have flat: "for_each (\<lambda>sz. mkdir no_tools (size_dir sz)) [32, 64, 128, 256, 512, 1024] icon_only =
      create_size_subdirectories no_tools icon_only"
    by (simp add: create_size_subdirectories_flat widths_eq)
  show ?thesis
    unfolding flat
    by (simp add: setup_no_tools_icon_only run_unreadable_sources run_broken_pipe)
qed



text \<open>
  C6. When the set-up phase returns normally, all six \<^verbatim>\<open><width>px\<close> directories exist, no
  child process has been started yet, and the conversion phase runs from that world: the
  directories are there before any conversion attempt, whatever the tools do later.
  Creation is idempotent: running the set-up again in the world it left, under any
  operating system, is no error and changes nothing.
\<close>

theorem directories_before_conversion:
  assumes ok: "fst (create_size_subdirectories E w) = Inr ()"
  shows "list_all (\<lambda>d. fs (snd (create_size_subdirectories E w)) (slash png_dir d) = Some Dir)
           [''32px'', ''64px'', ''128px'', ''256px'', ''512px'', ''1024px''] \<and>
         calls (snd (create_size_subdirectories E w)) = calls w \<and>
         create_size_subdirectories E' (snd (create_size_subdirectories E w)) =
           (Inr (), snd (create_size_subdirectories E w)) \<and>
         generate_pngs E w =
           (Inr (), print closing (snd (convert_all E
              (print generating (snd (create_size_subdirectories E w))))))"
proof -
  let ?w1 = "snd (create_size_subdirectories E w)"
  have w1: "?w1 = snd (for_each (\<lambda>sz. mkdir E (size_dir sz)) widths w)"
    by (simp add: create_size_subdirectories_flat)
  have ok': "fst (for_each (\<lambda>sz. mkdir E (size_dir sz)) widths w) = Inr ()"
    using ok by (simp add: create_size_subdirectories_flat)
  have dirs: "\<forall>sz \<in> set widths. fs ?w1 (size_dir sz) = Some Dir"
    unfolding w1
    by (rule for_each_establishes [OF ok', where Q = "\<lambda>sz w. fs w (size_dir sz) = Some Dir"])
      (simp_all add: mkdir_ok_dir mkdir_keeps_dir)
  then have "\<forall>p \<in> set (map size_dir widths). fs ?w1 p = Some Dir" by simp
  then have a: "list_all (\<lambda>d. fs ?w1 (slash png_dir d) = Some Dir)
           [''32px'', ''64px'', ''128px'', ''256px'', ''512px'', ''1024px'']"
    unfolding size_dirs by simp
  have b: "calls ?w1 = calls w"
    unfolding w1
    by (rule sym, rule for_each_rel [where R = "\<lambda>a b. calls a = calls b"]) simp_all
  have c: "create_size_subdirectories E' ?w1 = (Inr (), ?w1)"
    unfolding create_size_subdirectories_flat [of E' ?w1]
    by (rule for_each_fixed) (simp add: mkdir_existing dirs)
  from a b c generate_pngs_setup_ok [OF ok] show ?thesis by simp
qed

theorem directories_before_conversion_witness:
  "fst (create_size_subdirectories no_tools icon_only) = Inr () \<and>
   fs (snd (create_size_subdirectories no_tools icon_only)) (slash png_dir ''1024px'') = Some Dir \<and>
   calls (snd (create_size_subdirectories no_tools icon_only)) = [] \<and>
   create_size_subdirectories read_only (snd (create_size_subdirectories no_tools icon_only)) =
     (Inr (), snd (create_size_subdirectories no_tools icon_only))"
proof -
  have ok: "fst (create_size_subdirectories no_tools icon_only) = Inr ()"
    unfolding create_size_subdirectories_flat widths_eq
    by (simp add: mkdir_def size_dir_def png_dir_def svg_dir_def slash_def no_tools_def icon_only_def
        str_int_def digit_char_def make_dirs_def)
  from ok directories_before_conversion [OF ok, where E' = read_only]
  show ?thesis by (simp add: icon_only_def)
qed

text \<open>
  C4. Every iteration of the innermost loop, for a source, its token and a width, starts the
  primary command for that very pair, alone or followed by the secondary command for that
  pair, and the destination either is given (the fifth argument of the primary, after
  \<^verbatim>\<open>--export-filename=\<close>, and the last of the secondary) is
  \<^verbatim>\<open>SyncedSports-BrandPack/Logos/PNG/<width>px/synced-sports-<token>-<width>.png\<close> for that
  token and that width, which is what the computed output path reads as. The processes of
  a whole run, when the tools leave the source directory alone, are these attempts for every
  width of every registered source that exists, in the order of the loops, and nothing
  else. The widths are 32, 64, 128, 256, 512 and 1024 and the tokens primary, horizontal,
  icon, waves, black, white and wordmark.
\<close>

theorem output_path_as_specified:
  "attempt (f, t, sz) (new_calls w' (snd (convert_pair E f t sz w'))) \<and>
   (tools_keep_sources E \<and> fst (create_size_subdirectories E w) = Inr () \<longrightarrow>
      (\<exists>css. new_calls w (snd (generate_pngs E w)) = concat css \<and>
         list_all2 attempt (attempted_pairs w) css)) \<and>
   str_path (output_path t sz) = spec_output_path t sz \<and>
   set widths = {32, 64, 128, 256, 512, 1024} \<and>
   set (map snd svg_files) =
     {''primary'', ''horizontal'', ''icon'', ''waves'', ''black'', ''white'', ''wordmark''}"
proof -
  from convert_pair_attempt [of E f t sz w']
  have "attempt (f, t, sz) (new_calls w' (snd (convert_pair E f t sz w')))"
    by (auto simp: new_calls_def)
  moreover have "set (map snd svg_files) =
     {''primary'', ''horizontal'', ''icon'', ''waves'', ''black'', ''white'', ''wordmark''}"
    by (simp add: svg_files_def)
  ultimately show ?thesis
    using run_attempts [of E w] by (simp add: str_output_path widths_eq)
qed

theorem output_path_as_specified_witness:
  "tools_keep_sources no_tools \<and>
   fst (create_size_subdirectories no_tools icon_only) = Inr () \<and>
   attempted_pairs icon_only =
     map (\<lambda>sz. (''synced-sports-icon.svg'', ''icon'', sz)) [32, 64, 128, 256, 512, 1024] \<and>
   (\<exists>css. new_calls icon_only (snd (generate_pngs no_tools icon_only)) = concat css \<and>
      list_all2 attempt (attempted_pairs icon_only) css) \<and>
   attempt (''synced-sports-icon.svg'', ''icon'', 64)
     (new_calls icon_only
        (snd (convert_pair magick_only ''synced-sports-icon.svg'' ''icon'' 64 icon_only))) \<and>
   new_calls icon_only
     (snd (convert_pair magick_only ''synced-sports-icon.svg'' ''icon'' 64 icon_only)) =
     [[''inkscape'', ''SyncedSports-BrandPack/Logos/SVG/synced-sports-icon.svg'',
       ''--export-width=64'', ''--export-type=png'',
       ''--export-filename=SyncedSports-BrandPack/Logos/PNG/64px/synced-sports-icon-64.png''],
      [''magick'', ''convert'', ''-background'', ''none'', ''-density'', ''300'', ''-resize'',
       ''64x64'', ''SyncedSports-BrandPack/Logos/SVG/synced-sports-icon.svg'',
       ''SyncedSports-BrandPack/Logos/PNG/64px/synced-sports-icon-64.png'']] \<and>
   str_path (output_path ''icon'' 64) =
     ''SyncedSports-BrandPack/Logos/PNG/64px/synced-sports-icon-64.png''"
proof -
  have k: "tools_keep_sources no_tools"
    by (simp add: tools_keep_sources_def no_tools_def)
  have a: "attempted_pairs icon_only =
      map (\<lambda>sz. (''synced-sports-icon.svg'', ''icon'', sz)) [32, 64, 128, 256, 512, 1024]"
    by (simp add: attempted_pairs_def svg_files_def widths_eq exists_path_def icon_only_def
        slash_def svg_dir_def)
  have c: "new_calls icon_only
       (snd (convert_pair magick_only ''synced-sports-icon.svg'' ''icon'' 64 icon_only)) =
     [[''inkscape'', ''SyncedSports-BrandPack/Logos/SVG/synced-sports-icon.svg'',
       ''--export-width=64'', ''--export-type=png'',
       ''--export-filename=SyncedSports-BrandPack/Logos/PNG/64px/synced-sports-icon-64.png''],
      [''magick'', ''convert'', ''-background'', ''none'', ''-density'', ''300'', ''-resize'',
       ''64x64'', ''SyncedSports-BrandPack/Logos/SVG/synced-sports-icon.svg'',
       ''SyncedSports-BrandPack/Logos/PNG/64px/synced-sports-icon-64.png'']]"
    by (simp add: convert_pair_eq new_calls_def magick_only_def exit_ok_def icon_only_def
        inkscape_cmd_def magick_cmd_def str_output_path spec_output_path_def slash_def svg_dir_def
        str_int_def digit_char_def)
  have p: "spec_output_path ''icon'' 64 =
      ''SyncedSports-BrandPack/Logos/PNG/64px/synced-sports-icon-64.png''"
    by (simp add: spec_output_path_def str_int_def digit_char_def)
  from k setup_no_tools_icon_only a c p
    output_path_as_specified [where E = no_tools and w = icon_only and t = "''icon''" and sz = 64]
    output_path_as_specified [where E = magick_only and w' = icon_only
      and f = "''synced-sports-icon.svg''" and t = "''icon''" and sz = 64]
  show ?thesis by simp
qed

text \<open>
  C10. Both calls of \<^verbatim>\<open>subprocess.run\<close> pass \<^verbatim>\<open>capture_output=True\<close>, which keeps the child's
  text off the script's two streams, and the script never prints what was captured. So a
  run with every child silenced is the same run; every line the run adds to standard
  output is one of the script's own status lines; and nothing reaches standard error.
\<close>

theorem tool_output_discarded:
  "generate_pngs (mute E) w = generate_pngs E w \<and>
   list_all status_line (new_stdout w (snd (generate_pngs E w))) \<and>
   stderr (snd (generate_pngs E w)) = stderr w \<and>
   stdout (snd (subprocess_run E cmd check True w)) = stdout w \<and>
   stderr (snd (subprocess_run E cmd check True w)) = stderr w"
proof -
  from generate_pngs_stdout [of E w]
  have "list_all status_line (new_stdout w (snd (generate_pngs E w)))"
    by (auto simp: new_stdout_def)
  then show ?thesis
    by (simp add: generate_pngs_mute generate_pngs_stderr captured_output_is_kept_back)
qed

theorem tool_output_discarded_witness:
  "generate_pngs (mute chatty) icon_only = generate_pngs chatty icon_only \<and>
   fst (tool chatty 0 [] (fs icon_only)) = Exited 1 ''rendering'' ''error: cannot open display'' \<and>
   fst (tool (mute chatty) 0 [] (fs icon_only)) = Exited 1 [] [] \<and>
   stderr (snd (generate_pngs chatty icon_only)) = [] \<and>
   list_all status_line (new_stdout icon_only (snd (generate_pngs chatty icon_only)))"
  using tool_output_discarded [where E = chatty and w = icon_only]
  by (simp add: chatty_def mute_def icon_only_def)



text \<open>
  C7. Let a registry entry's source be absent when the run starts, and let the tools leave
  the source directory alone. Then no child process of the run has the source's path among
  its arguments or one of that token's output paths as its destination: no conversion is
  attempted for it at any width. The iteration for that entry prints the skip notice and
  does nothing else.
\<close>

theorem missing_source_is_skipped:
  assumes keep: "tools_keep_sources E"
    and reg: "(file, tok) \<in> set svg_files"
    and absent: "\<not> exists_path w (slash svg_dir file)"
  shows "list_all (unrelated_to file tok) (new_calls w (snd (generate_pngs E w))) \<and>
         convert_source E (file, tok) w = (Inr (), print (skipping file) w)"
proof -
  let ?I = "\<lambda>w. \<not> exists_path w (slash svg_dir file)"
  have conv: "list_all (unrelated_to file tok) (new_calls W (snd (convert_all E W)))"
    if W: "?I W" for W
  proof -
    have "?I (snd (convert_all E W)) \<and>
      (\<exists>css. calls (snd (convert_all E W)) = calls W @ concat css \<and>
         list_all2 (\<lambda>x cs. list_all (unrelated_to file tok) cs) svg_files css)"
    proof (rule convert_all_appends [OF keep, where I = ?I
          and Pp = "\<lambda>f t sz cs. list_all (unrelated_to file tok) cs"])
      show "?I W" by (rule W)
    next
      fix f t sz w0
      assume a: "(f, t) \<in> set svg_files" "sz \<in> set widths" "?I w0"
        "exists_path w0 (slash svg_dir f)"
      then have "f \<noteq> file" by auto
      from other_source_unrelated [OF a(1) reg this a(2)] convert_pair_calls [of E f t sz w0]
        convert_pair_source [OF keep, of f t sz w0 "file"] a(3)
      show "?I (snd (convert_pair E f t sz w0)) \<and>
          (\<exists>cs. calls (snd (convert_pair E f t sz w0)) = calls w0 @ cs \<and>
             list_all (unrelated_to file tok) cs)"
        by (auto simp: exists_path_def)
    next
      fix f t w0
      assume "?I w0"
      then show "?I (print (skipping f) w0) \<and>
          (\<exists>cs. calls (print (skipping f) w0) = calls w0 @ cs \<and>
             list_all (unrelated_to file tok) cs)"
        by (simp add: exists_path_def)
    next
      fix f t w0 css
      assume "list_all2 (\<lambda>sz cs. list_all (unrelated_to file tok) cs) widths css"
      then show "list_all (unrelated_to file tok) (concat css)" by (rule list_all_concat)
    qed
    then show ?thesis by (auto simp: new_calls_def dest: list_all_concat)
  qed
  have "?I (print generating (snd (create_size_subdirectories E w)))"
    using absent create_size_subdirectories_source [of E w "file"] by (simp add: exists_path_def)
  from conv [OF this] have "list_all (unrelated_to file tok) (new_calls w (snd (generate_pngs E w)))"
    by (simp add: generate_pngs_new_calls)
  with absent show ?thesis by (simp add: convert_source_def)
qed

lemma no_tools_keep_sources: "tools_keep_sources no_tools"
  by (simp add: tools_keep_sources_def no_tools_def)

theorem missing_source_is_skipped_witness:
  "tools_keep_sources no_tools \<and>
   (''synced-sports-primary.svg'', ''primary'') \<in> set svg_files \<and>
   \<not> exists_path icon_only (slash svg_dir ''synced-sports-primary.svg'') \<and>
   list_all (unrelated_to ''synced-sports-primary.svg'' ''primary'')
     (new_calls icon_only (snd (generate_pngs no_tools icon_only))) \<and>
   convert_source no_tools (''synced-sports-primary.svg'', ''primary'') icon_only =
     (Inr (), print ''Skipping synced-sports-primary.svg - file not found'' icon_only)"
proof -
  have reg: "(''synced-sports-primary.svg'', ''primary'') \<in> set svg_files"
    by (simp add: svg_files_def)
  have absent: "\<not> exists_path icon_only (slash svg_dir ''synced-sports-primary.svg'')"
    by (simp add: exists_path_def icon_only_def slash_def svg_dir_def)
  from missing_source_is_skipped [OF no_tools_keep_sources reg absent]
    no_tools_keep_sources reg absent
  show ?thesis by (simp add: skipping_def)
qed

text \<open>
  C1, as amended. The existence check stands before the loop over the widths (lines 36 to
  39), so a source that is absent when the run starts, and that the tools do not create,
  gets its file-not-found notice exactly once in a run that completes: once per source,
  not once per width. The stated form of the claim, six notices per missing source, fails
  on the empty source directory, where the first entry's notice is printed once.
\<close>

theorem skip_notice_once_per_source:
  assumes keep: "tools_keep_sources E"
    and ok: "fst (generate_pngs E w) = Inr ()"
    and reg: "(file, tok) \<in> set svg_files"
    and absent: "\<not> exists_path w (slash svg_dir file)"
  shows "count_list (new_stdout w (snd (generate_pngs E w))) (skipping file) = 1"
proof -
  let ?I = "\<lambda>w. \<not> exists_path w (slash svg_dir file)"
  let ?c = "\<lambda>x. if fst x = file then 1 else 0 :: nat"
  let ?w1 = "snd (create_size_subdirectories E w)"
  let ?W = "print generating ?w1"
  have setup_ok: "fst (create_size_subdirectories E w) = Inr ()"
  proof (cases "fst (create_size_subdirectories E w)")
    case (Inl e)
    with ok generate_pngs_setup_failed [of E w e] show ?thesis by simp
  next
    case (Inr u)
    then show ?thesis by simp
  qed
  have W: "?I ?W"
    using absent create_size_subdirectories_source [of E w "file"] by (simp add: exists_path_def)
  have "?I (snd (convert_all E ?W)) \<and>
      (\<exists>css. stdout (snd (convert_all E ?W)) = stdout ?W @ concat css \<and>
         list_all2 (\<lambda>x ls. count_list ls (skipping file) = ?c x) svg_files css)"
  proof (rule convert_all_appends [OF keep, where I = ?I
        and Pp = "\<lambda>f t sz ls. count_list ls (skipping file) = 0"])
    show "?I ?W" by (rule W)
  next
    fix f t sz w0
    assume a: "?I w0"
    from convert_pair_prints_no_skip [of E f t sz w0 "file"]
      convert_pair_source [OF keep, of f t sz w0 "file"] a
    show "?I (snd (convert_pair E f t sz w0)) \<and>
        (\<exists>ls. stdout (snd (convert_pair E f t sz w0)) = stdout w0 @ ls \<and>
           count_list ls (skipping file) = 0)"
      by (auto simp: exists_path_def)
  next
    fix f t w0
    assume "?I w0"
    then show "?I (print (skipping f) w0) \<and>
        (\<exists>ls. stdout (print (skipping f) w0) = stdout w0 @ ls \<and>
           count_list ls (skipping file) = ?c (f, t))"
      by (simp add: exists_path_def)
  next
    fix f t w0 css
    assume a: "?I w0" "exists_path w0 (slash svg_dir f)"
      and l: "list_all2 (\<lambda>sz ls. count_list ls (skipping file) = 0) widths css"
    from a have "f \<noteq> file" by auto
    with count_concat_zero [OF l]
    show "count_list (concat css) (skipping file) = ?c (f, t)" by simp
  qed
  then obtain css where s: "stdout (snd (convert_all E ?W)) = stdout ?W @ concat css"
    and l: "list_all2 (\<lambda>x ls. count_list ls (skipping file) = ?c x) svg_files css"
    by blast
  have "new_stdout w (snd (generate_pngs E w)) = generating # concat css @ [closing]"
    by (simp add: generate_pngs_setup_ok [OF setup_ok] new_stdout_def s)
  with count_concat [OF l] registry_count [OF reg] show ?thesis by simp
qed

lemma setup_no_tools_no_sources: "fst (create_size_subdirectories no_tools no_sources) = Inr ()"
  unfolding create_size_subdirectories_flat widths_eq
  by (simp add: mkdir_def size_dir_def png_dir_def slash_def no_tools_def no_sources_def
      str_int_def digit_char_def make_dirs_def)

theorem skip_notice_once_per_source_witness:
  "tools_keep_sources no_tools \<and>
   fst (generate_pngs no_tools icon_only) = Inr () \<and>
   (''synced-sports-wordmark.svg'', ''wordmark'') \<in> set svg_files \<and>
   \<not> exists_path icon_only (slash svg_dir ''synced-sports-wordmark.svg'') \<and>
   count_list (new_stdout icon_only (snd (generate_pngs no_tools icon_only)))
     (skipping ''synced-sports-wordmark.svg'') = 1"
proof -
  have ok: "fst (generate_pngs no_tools icon_only) = Inr ()"
    by (simp add: generate_pngs_setup_ok [OF setup_no_tools_icon_only])
  have reg: "(''synced-sports-wordmark.svg'', ''wordmark'') \<in> set svg_files"
    by (simp add: svg_files_def)
  have absent: "\<not> exists_path icon_only (slash svg_dir ''synced-sports-wordmark.svg'')"
    by (simp add: exists_path_def icon_only_def slash_def svg_dir_def)
  from skip_notice_once_per_source [OF no_tools_keep_sources ok reg absent]
    no_tools_keep_sources ok reg absent
  show ?thesis by simp
qed

theorem skip_notice_per_width_counterexample:
  "\<not> exists_path no_sources (slash svg_dir ''synced-sports-primary.svg'') \<and>
   length widths = 6 \<and>
   count_list (new_stdout no_sources (snd (generate_pngs no_tools no_sources)))
     (skipping ''synced-sports-primary.svg'') = 1 \<and>
   count_list (new_stdout no_sources (snd (generate_pngs no_tools no_sources)))
     (skipping ''synced-sports-primary.svg'') \<noteq> 6"
proof -
  have out: "stdout (snd (generate_pngs no_tools no_sources)) =
     [''Generating PNG exports...'',
      ''Skipping synced-sports-primary.svg - file not found'',
      ''Skipping synced-sports-horizontal.svg - file not found'',
      ''Skipping synced-sports-icon.svg - file not found'',
      ''Skipping synced-sports-waves-only.svg - file not found'',
      ''Skipping synced-sports-black.svg - file not found'',
      ''Skipping synced-sports-white.svg - file not found'',
      ''Skipping synced-sports-wordmark.svg - file not found'',
      closing]"
    by (simp add: generate_pngs_def create_size_subdirectories_flat widths_eq mkdir_def
        size_dir_def png_dir_def svg_dir_def slash_def no_tools_def no_sources_def str_int_def
        digit_char_def make_dirs_def convert_all_def svg_files_def convert_source_def
        exists_path_def print_def skipping_def generating_def)
  have absent: "\<not> exists_path no_sources (slash svg_dir ''synced-sports-primary.svg'')"
    by (simp add: exists_path_def no_sources_def)
  have before: "stdout no_sources = []"
    by (simp add: no_sources_def)
  show ?thesis
    by (simp add: out absent before new_stdout_def widths_eq skipping_def closing_def)
qed

text \<open>
  C8. Take two completed runs whose tools leave the source directory alone and whose
  worlds agree on which registered sources exist (for one, the run repeated in the world
  the first run left). The set of destinations named to the tools is the same in both: it
  is the set of output paths of the sources that exist, whatever the tools do. Every
  iteration of the innermost loop names exactly one destination, its own output path, so a
  second run's files land on the first run's.
\<close>

theorem sweep_is_idempotent:
  assumes keep1: "tools_keep_sources E1" and keep2: "tools_keep_sources E2"
    and ok1: "fst (generate_pngs E1 w1) = Inr ()" and ok2: "fst (generate_pngs E2 w2) = Inr ()"
    and same: "list_all (\<lambda>(f, t). exists_path w2 (slash svg_dir f) =
                 exists_path w1 (slash svg_dir f)) svg_files"
  shows "dest ` set (new_calls w2 (snd (generate_pngs E2 w2))) =
           dest ` set (new_calls w1 (snd (generate_pngs E1 w1))) \<and>
         dest ` set (new_calls w1 (snd (generate_pngs E1 w1))) = set (planned_outputs w1) \<and>
         dest ` set (new_calls w (snd (convert_pair E f t sz w))) = {str_path (output_path t sz)}"
proof -
  from convert_pair_dest [of E f t sz w]
  have "dest ` set (new_calls w (snd (convert_pair E f t sz w))) = {str_path (output_path t sz)}"
    by (auto simp: new_calls_def)
  with run_targets [OF keep1 ok1] run_targets [OF keep2 ok2] planned_outputs_cong [OF same]
  show ?thesis by simp
qed

theorem sweep_is_idempotent_witness:
  "tools_keep_sources no_tools \<and>
   fst (generate_pngs no_tools icon_only) = Inr () \<and>
   fst (generate_pngs no_tools (snd (generate_pngs no_tools icon_only))) = Inr () \<and>
   list_all (\<lambda>(f, t). exists_path (snd (generate_pngs no_tools icon_only)) (slash svg_dir f) =
               exists_path icon_only (slash svg_dir f)) svg_files \<and>
   dest ` set (new_calls (snd (generate_pngs no_tools icon_only))
                (snd (generate_pngs no_tools (snd (generate_pngs no_tools icon_only))))) =
     dest ` set (new_calls icon_only (snd (generate_pngs no_tools icon_only))) \<and>
   dest ` set (new_calls icon_only (snd (generate_pngs no_tools icon_only))) =
     {''SyncedSports-BrandPack/Logos/PNG/32px/synced-sports-icon-32.png'',
      ''SyncedSports-BrandPack/Logos/PNG/64px/synced-sports-icon-64.png'',
      ''SyncedSports-BrandPack/Logos/PNG/128px/synced-sports-icon-128.png'',
      ''SyncedSports-BrandPack/Logos/PNG/256px/synced-sports-icon-256.png'',
      ''SyncedSports-BrandPack/Logos/PNG/512px/synced-sports-icon-512.png'',
      ''SyncedSports-BrandPack/Logos/PNG/1024px/synced-sports-icon-1024.png''}"
proof -
  let ?w2 = "snd (generate_pngs no_tools icon_only)"
  have ok1: "fst (generate_pngs no_tools icon_only) = Inr ()"
    by (simp add: generate_pngs_setup_ok [OF setup_no_tools_icon_only])
  note ok2 = no_tools_second_run(2) [OF setup_no_tools_icon_only]
  have ex: "exists_path ?w2 (slash svg_dir f) = exists_path icon_only (slash svg_dir f)" for f
    using create_size_subdirectories_exists [of no_tools icon_only f]
    by (simp add: exists_path_def no_tools_second_run(1) [OF setup_no_tools_icon_only])
  have same: "list_all (\<lambda>(f, t). exists_path ?w2 (slash svg_dir f) =
               exists_path icon_only (slash svg_dir f)) svg_files"
    by (simp add: list_all_iff ex)
  have plan: "planned_outputs icon_only =
     [''SyncedSports-BrandPack/Logos/PNG/32px/synced-sports-icon-32.png'',
      ''SyncedSports-BrandPack/Logos/PNG/64px/synced-sports-icon-64.png'',
      ''SyncedSports-BrandPack/Logos/PNG/128px/synced-sports-icon-128.png'',
      ''SyncedSports-BrandPack/Logos/PNG/256px/synced-sports-icon-256.png'',
      ''SyncedSports-BrandPack/Logos/PNG/512px/synced-sports-icon-512.png'',
      ''SyncedSports-BrandPack/Logos/PNG/1024px/synced-sports-icon-1024.png'']"
    by (simp add: planned_outputs_def svg_files_def widths_eq exists_path_def icon_only_def
        slash_def svg_dir_def str_output_path spec_output_path_def str_int_def digit_char_def)
  from sweep_is_idempotent [OF no_tools_keep_sources no_tools_keep_sources ok1 ok2 same]
    no_tools_keep_sources ok1 ok2 same plan
  show ?thesis by simp
qed

end
